theory Spec2Isabelle
  imports Complex_Main
begin

section \<open>The x402 Solana example server: the \<open>/premium\<close> handler\<close>

text \<open>
  The repository's only server code is \<^verbatim>\<open>examples/solana/server.js\<close>: one Express handler,
  \<^verbatim>\<open>app.get("/premium", async (req, res) => ...)\<close>. It reads the \<^verbatim>\<open>x-payment\<close> header,
  decodes it, deserialises the transaction it carries, submits that transaction through the
  Solana RPC connection, waits for confirmation, fetches the confirmed transaction, computes
  the amount credited to the server's token account and answers 200 or 402.

  The handler is embedded as a function of
  \<^item> the constants fixed at start-up (\<open>config\<close>),
  \<^item> the answers of the library and RPC calls it makes (\<open>env\<close>): every call the handler makes
    to Node, \<^verbatim>\<open>@solana/web3.js\<close> or the RPC node is a field of \<open>env\<close>, and a call that throws
    answers \<open>Inl\<close> of the thrown value,
  \<^item> the value of the request's \<^verbatim>\<open>x-payment\<close> header.
  It returns the HTTP response together with the list of RPC requests issued, in order.
  \<^verbatim>\<open>console.log\<close> output is not modelled.
\<close>

subsection \<open>JavaScript values\<close>

type_synonym pubkey = string
  \<comment> \<open>a \<^verbatim>\<open>PublicKey\<close>, by its base58 text; \<^verbatim>\<open>equals\<close> is equality\<close>

type_synonym bytes = string
  \<comment> \<open>a \<^verbatim>\<open>Buffer\<close>\<close>

text \<open>
  JSON values, as \<^verbatim>\<open>JSON.parse\<close> yields them and \<^verbatim>\<open>res.json\<close> sends them. An object is
  the list of its own properties (keys unique, as in a parsed object). Numbers are the
  rationals which the doubles of JavaScript stand for.
\<close>

datatype json =
    JNull
  | JBool bool
  | JNum rat
  | JStr string
  | JArr "json list"
  | JObj "(string \<times> json) list"

text \<open>
  A thrown value: an \<^verbatim>\<open>Error\<close> (of any subclass) with its \<^verbatim>\<open>message\<close>, or anything else.
  The handler's \<^verbatim>\<open>catch\<close> block looks at nothing but \<^verbatim>\<open>e instanceof Error\<close> and
  \<^verbatim>\<open>e.message\<close>.
\<close>

datatype exn = Error string | Thrown

text \<open>Truthiness of a value, for \<^verbatim>\<open>if (confirmation.value.err)\<close>.\<close>

fun truthy :: "json \<Rightarrow> bool" where
  "truthy JNull = False"
| "truthy (JBool b) = b"
| "truthy (JNum n) = (n \<noteq> 0)"
| "truthy (JStr s) = (s \<noteq> [])"
| "truthy (JArr xs) = True"
| "truthy (JObj kvs) = True"

text \<open>
  Reading property \<open>k\<close> of a value that is neither \<^verbatim>\<open>null\<close> nor \<^verbatim>\<open>undefined\<close>; \<open>None\<close> is
  \<^verbatim>\<open>undefined\<close>. The handler reads \<^verbatim>\<open>x402Version\<close>, \<^verbatim>\<open>scheme\<close>, \<^verbatim>\<open>network\<close>, \<^verbatim>\<open>payload\<close>
  and \<^verbatim>\<open>serializedTransaction\<close> only; none of them is a built-in property of a boolean,
  number, string or array, so there the read gives \<^verbatim>\<open>undefined\<close>.
\<close>

fun get_prop :: "json \<Rightarrow> string \<Rightarrow> json option" where
  "get_prop (JObj kvs) k = map_of kvs k"
| "get_prop _ k = None"

text \<open>
  Reading a property of \<^verbatim>\<open>null\<close> or \<^verbatim>\<open>undefined\<close> throws a \<^verbatim>\<open>TypeError\<close>; the
  message is the one of V8 (Node 18 and later, which the example requires).
\<close>

definition cannot_read :: "string \<Rightarrow> string \<Rightarrow> exn" where
  "cannot_read v k = Error (''Cannot read properties of '' @ v @ '' (reading '' @ [CHR 0x27] @ k @ [CHR 0x27] @ '')'')"

text \<open>
  An integer-valued number in a template literal (\<^verbatim>\<open>${amountReceived}\<close>): its decimal
  digits, with a minus sign when negative. (JavaScript prints the digits for magnitudes
  below \<open>10^21\<close>; the amounts computed from token balances are at most \<open>2^64\<close>, and a price
  of \<open>10^21\<close> or more, which no token balance can reach, is not considered.)
\<close>

definition digit :: "nat \<Rightarrow> char" where
  "digit d = ''0123456789'' ! d"

function dec :: "nat \<Rightarrow> string" where
  "dec n = (if n < 10 then [digit n] else dec (n div 10) @ [digit (n mod 10)])"
  by pat_completeness auto
termination
  by (relation "measure id") auto

declare dec.simps [simp del]

definition String_of_int :: "int \<Rightarrow> string" where
  "String_of_int i = (if i < 0 then CHR ''-'' # dec (nat (- i)) else dec (nat i))"

text \<open>
  Doubles. The numbers the handler computes with are integers held in doubles: the price
  (from \<^verbatim>\<open>parseInt\<close>), the token amounts (from \<^verbatim>\<open>Number\<close> on a decimal string) and their
  difference. A double has a significand of 53 bits; converting an integer to a double, and
  every arithmetic operation, gives the nearest double, a tie going to the even
  significand. \<open>excess_bits n\<close> is the number of low bits that do not fit: the least \<open>e\<close>
  with \<open>n div 2^e < 2^53\<close>. \<open>nearest_double n\<close> keeps the 53 high bits \<open>q\<close> and rounds on the
  remainder \<open>r\<close>. Integers below \<open>2^53\<close> are doubles themselves.
\<close>

function excess_bits :: "nat \<Rightarrow> nat" where
  "excess_bits n = (if n < 2 ^ 53 then 0 else Suc (excess_bits (n div 2)))"
  by pat_completeness auto
termination
  by (relation "measure id") auto

declare excess_bits.simps [simp del]

definition nearest_double :: "nat \<Rightarrow> nat" where
  "nearest_double n =
     (let e = excess_bits n; q = n div 2 ^ e; r = n mod 2 ^ e in
      if 2 * r < 2 ^ e \<or> (2 * r = 2 ^ e \<and> even q) then q * 2 ^ e else (q + 1) * 2 ^ e)"

text \<open>\<^verbatim>\<open>Number(amount)\<close> on the decimal string of the unsigned integer \<open>amount\<close>.\<close>

definition Number :: "nat \<Rightarrow> int" where
  "Number amount = int (nearest_double amount)"

text \<open>
  \<^verbatim>\<open>a - b\<close> on two integer-valued doubles: the nearest double to the difference (rounding
  is symmetric in the sign).
\<close>

definition minus_double :: "int \<Rightarrow> int \<Rightarrow> int" where
  "minus_double a b =
     (if a - b < 0 then - int (nearest_double (nat (b - a))) else int (nearest_double (nat (a - b))))"

subsection \<open>Start-up constants\<close>

text \<open>
  \<^verbatim>\<open>RECIPIENT_WALLET\<close>, \<^verbatim>\<open>RECIPIENT_TOKEN_ACCOUNT\<close> and \<^verbatim>\<open>USDC_MINT\<close> are public keys;
  \<^verbatim>\<open>PRICE_USDC = parseInt(process.env.PRICE_USDC || "1000000")\<close> is the integer-valued
  double that \<^verbatim>\<open>parseInt\<close> returned (the process is assumed to be configured with a number:
  a setting that \<^verbatim>\<open>parseInt\<close> turns into \<^verbatim>\<open>NaN\<close> is outside this model). The comparison
  \<^verbatim>\<open>amountReceived < PRICE_USDC\<close> of two integer-valued doubles is the comparison of the
  integers.
\<close>

record config =
  RECIPIENT_WALLET_publicKey :: pubkey
  RECIPIENT_TOKEN_ACCOUNT :: pubkey
  USDC_MINT :: pubkey
  PRICE_USDC :: int

subsection \<open>What the RPC node returns for a confirmed transaction\<close>

text \<open>
  An element of \<^verbatim>\<open>meta.preTokenBalances\<close> or \<^verbatim>\<open>meta.postTokenBalances\<close>: the handler reads
  its \<^verbatim>\<open>accountIndex\<close> and \<^verbatim>\<open>uiTokenAmount.amount\<close>. The amount is the decimal string of an
  unsigned 64-bit integer; the record holds that integer, and the conversion
  \<^verbatim>\<open>Number(amount)\<close> to a double is \<open>Number\<close> below.
\<close>

record token_balance =
  accountIndex :: nat
  uiTokenAmount_amount :: nat

record tx_meta =
  preTokenBalances :: "token_balance list option"
  postTokenBalances :: "token_balance list option"

record confirmed_tx =
  meta :: "tx_meta option"
  staticAccountKeys :: "pubkey list"
    \<comment> \<open>\<^verbatim>\<open>confirmedTx.transaction.message.staticAccountKeys\<close>\<close>

subsection \<open>Library and RPC calls\<close>

text \<open>
  \<^item> \<open>base64_utf8 h\<close> is \<^verbatim>\<open>Buffer.from(h, "base64").toString("utf-8")\<close> on a string \<open>h\<close>;
    Node never throws there (characters outside the base64 alphabet are skipped).
  \<^item> \<open>JSON_parse\<close> throws a \<^verbatim>\<open>SyntaxError\<close> on text that is not JSON.
  \<^item> \<open>Buffer_from v\<close> is \<^verbatim>\<open>Buffer.from(v, "base64")\<close> on the value (possibly \<^verbatim>\<open>undefined\<close>,
    \<open>None\<close>) read from \<^verbatim>\<open>payload.serializedTransaction\<close>; it throws a \<^verbatim>\<open>TypeError\<close> on a
    value it cannot turn into a buffer.
  \<^item> \<open>Transaction_from\<close> and \<open>VersionedTransaction_deserialize\<close> give the deserialised
    transaction, or throw (\<open>None\<close>); the handler discards what they throw.
  \<^item> \<open>sendRawTransaction\<close>, \<open>confirmTransaction\<close> (giving \<^verbatim>\<open>confirmation.value.err\<close>) and
    \<open>getTransaction\<close> (giving \<^verbatim>\<open>null\<close>, \<open>None\<close>, or the transaction) are the requests to the RPC
    node; each may throw.
\<close>

record 'tx env =
  base64_utf8 :: "string \<Rightarrow> string"
  JSON_parse :: "string \<Rightarrow> exn + json"
  Buffer_from :: "json option \<Rightarrow> exn + bytes"
  Transaction_from :: "bytes \<Rightarrow> 'tx option"
  VersionedTransaction_deserialize :: "bytes \<Rightarrow> 'tx option"
  sendRawTransaction :: "bytes \<Rightarrow> exn + string"
  confirmTransaction :: "string \<Rightarrow> exn + json"
  getTransaction :: "string \<Rightarrow> exn + confirmed_tx option"

datatype rpc_call = SendRaw bytes | Confirm string | GetTx string

type_synonym response = "nat \<times> json"
  \<comment> \<open>\<^verbatim>\<open>res.status(s).json(body)\<close>; \<^verbatim>\<open>res.json(body)\<close> has status 200\<close>

subsection \<open>The handler, stage by stage\<close>

text \<open>The \<^verbatim>\<open>catch (e)\<close> block around the whole payment path.\<close>

definition catch_response :: "exn \<Rightarrow> response" where
  "catch_response e =
     (402, JObj [(''error'', JStr ''Payment verification failed''),
                 (''details'', JStr (case e of Error message \<Rightarrow> message | Thrown \<Rightarrow> ''Unknown error''))])"

text \<open>
  ``Extract the serialized transaction'': the reads of \<^verbatim>\<open>paymentProof.x402Version\<close>,
  \<^verbatim>\<open>.scheme\<close> and \<^verbatim>\<open>.network\<close> (arguments of a \<^verbatim>\<open>console.log\<close>) throw when the proof is
  \<^verbatim>\<open>null\<close>; then \<^verbatim>\<open>paymentProof.payload.serializedTransaction\<close> throws when the payload is
  \<^verbatim>\<open>undefined\<close> or \<^verbatim>\<open>null\<close>; then \<^verbatim>\<open>Buffer.from(serializedTx, "base64")\<close>.
\<close>

definition txBuffer_of :: "'tx env \<Rightarrow> json \<Rightarrow> exn + bytes" where
  "txBuffer_of env paymentProof =
     (case paymentProof of
        JNull \<Rightarrow> Inl (cannot_read ''null'' ''x402Version'')
      | _ \<Rightarrow>
          (case get_prop paymentProof ''payload'' of
             None \<Rightarrow> Inl (cannot_read ''undefined'' ''serializedTransaction'')
           | Some JNull \<Rightarrow> Inl (cannot_read ''null'' ''serializedTransaction'')
           | Some payload \<Rightarrow> Buffer_from env (get_prop payload ''serializedTransaction'')))"

text \<open>
  ``Deserialize and verify transaction structure'': \<^verbatim>\<open>Transaction.from\<close> first, and
  \<^verbatim>\<open>VersionedTransaction.deserialize\<close> in its \<^verbatim>\<open>catch\<close>. \<open>None\<close> is the case where both
  throw.
\<close>

datatype 'tx transaction = Legacy 'tx | Versioned 'tx

definition transaction_of :: "'tx env \<Rightarrow> bytes \<Rightarrow> 'tx transaction option" where
  "transaction_of env txBuffer =
     (case Transaction_from env txBuffer of
        Some t \<Rightarrow> Some (Legacy t)
      | None \<Rightarrow>
          (case VersionedTransaction_deserialize env txBuffer of
             Some t \<Rightarrow> Some (Versioned t)
           | None \<Rightarrow> None))"

text \<open>
  ``Find the recipient's token account in the balance changes'': the \<^verbatim>\<open>for\<close> loop over
  \<^verbatim>\<open>postTokenBalances\<close>. \<^verbatim>\<open>amountReceived\<close> starts at 0; the first entry whose account key
  (\<^verbatim>\<open>staticAccountKeys[postBal.accountIndex]\<close>, \<^verbatim>\<open>undefined\<close> out of range) equals the
  recipient's token account sets it to \<^verbatim>\<open>Number(postAmount) - Number(preAmount)\<close>, where
  \<^verbatim>\<open>preAmount\<close> is the amount of the pre entry with the same \<^verbatim>\<open>accountIndex\<close> (\<^verbatim>\<open>"0"\<close> when
  \<^verbatim>\<open>find\<close> gives none), and ends the loop.
\<close>

fun amountReceived_loop ::
  "pubkey \<Rightarrow> pubkey list \<Rightarrow> token_balance list \<Rightarrow> token_balance list \<Rightarrow> int" where
  "amountReceived_loop recipient keys pres [] = 0"
| "amountReceived_loop recipient keys pres (postBal # rest) =
     (if accountIndex postBal < length keys \<and> keys ! accountIndex postBal = recipient
      then minus_double
             (Number (uiTokenAmount_amount postBal))
             (Number (case find (\<lambda>pre. accountIndex pre = accountIndex postBal) pres of
                        None \<Rightarrow> 0
                      | Some preBal \<Rightarrow> uiTokenAmount_amount preBal))
      else amountReceived_loop recipient keys pres rest)"

text \<open>\<^verbatim>\<open>confirmedTx.meta?.preTokenBalances || []\<close>, and the same for the post balances.\<close>

definition balances_or_empty ::
  "tx_meta option \<Rightarrow> (tx_meta \<Rightarrow> token_balance list option) \<Rightarrow> token_balance list" where
  "balances_or_empty m field =
     (case m of None \<Rightarrow> [] | Some mt \<Rightarrow> (case field mt of None \<Rightarrow> [] | Some bs \<Rightarrow> bs))"

definition amountReceived_of :: "config \<Rightarrow> confirmed_tx \<Rightarrow> int" where
  "amountReceived_of cfg confirmedTx =
     amountReceived_loop (RECIPIENT_TOKEN_ACCOUNT cfg) (staticAccountKeys confirmedTx)
       (balances_or_empty (meta confirmedTx) preTokenBalances)
       (balances_or_empty (meta confirmedTx) postTokenBalances)"

text \<open>
  The bodies the handler sends. \<^verbatim>\<open>amountUSDC\<close> is written as the exact quotient by 1000000,
  of which JavaScript sends the nearest double.
\<close>

definition insufficient_payment :: "int \<Rightarrow> int \<Rightarrow> string" where
  "insufficient_payment amountReceived price =
     ''Insufficient payment: received '' @ String_of_int amountReceived
       @ '', expected '' @ String_of_int price"

definition premium_data :: string where
  "premium_data =
     [CHR 0xEF, CHR 0xA3, CHR 0xBF, CHR 0xC3, CHR 0xBC, CHR 0xC3, CHR 0xA9, CHR 0xC3, CHR 0xA2]
     @ '' Premium content unlocked! This is exclusive data accessible only after USDC payment on Solana.''"

definition explorerUrl :: "string \<Rightarrow> string" where
  "explorerUrl signature = ''https://explorer.solana.com/tx/'' @ signature @ ''?cluster=devnet''"

definition premium_content :: "config \<Rightarrow> string \<Rightarrow> int \<Rightarrow> json" where
  "premium_content cfg signature amountReceived =
     JObj [(''data'', JStr premium_data),
           (''paymentDetails'',
            JObj [(''signature'', JStr signature),
                  (''amount'', JNum (of_int amountReceived)),
                  (''amountUSDC'', JNum (of_int amountReceived / 1000000)),
                  (''recipient'', JStr (RECIPIENT_TOKEN_ACCOUNT cfg)),
                  (''explorerUrl'', JStr (explorerUrl signature))])]"

definition payment_quote :: "config \<Rightarrow> json" where
  "payment_quote cfg =
     JObj [(''x402Version'', JNum 1),
           (''accepts'',
            JArr [JObj [(''scheme'', JStr ''exact''),
                        (''network'', JStr ''solana-devnet''),
                        (''recipientWallet'', JStr (RECIPIENT_WALLET_publicKey cfg)),
                        (''tokenAccount'', JStr (RECIPIENT_TOKEN_ACCOUNT cfg)),
                        (''mint'', JStr (USDC_MINT cfg)),
                        (''amount'', JNum (of_int (PRICE_USDC cfg))),
                        (''amountUSDC'', JNum (of_int (PRICE_USDC cfg) / 1000000)),
                        (''resource'', JStr ''/premium''),
                        (''description'', JStr ''Premium content access''),
                        (''mimeType'', JStr ''application/json'')]])]"

text \<open>
  ``Verify the payment amount by checking the transaction'', from the fetched transaction
  on: the balance delta, the comparison with the price, and the two answers.
\<close>

definition verify_amount :: "config \<Rightarrow> string \<Rightarrow> confirmed_tx \<Rightarrow> response" where
  "verify_amount cfg signature confirmedTx =
     (let amountReceived = amountReceived_of cfg confirmedTx in
      if amountReceived < PRICE_USDC cfg
      then (402, JObj [(''error'', JStr (insufficient_payment amountReceived (PRICE_USDC cfg)))])
      else (200, premium_content cfg signature amountReceived))"

text \<open>
  ``Submit the transaction to the blockchain'', ``Wait for confirmation'' and the fetch of
  the confirmed transaction. The second component lists the RPC requests issued.
\<close>

definition submit_and_verify :: "config \<Rightarrow> 'tx env \<Rightarrow> bytes \<Rightarrow> response \<times> rpc_call list" where
  "submit_and_verify cfg env txBuffer =
     (case sendRawTransaction env txBuffer of
        Inl e \<Rightarrow> (catch_response e, [SendRaw txBuffer])
      | Inr signature \<Rightarrow>
          (case confirmTransaction env signature of
             Inl e \<Rightarrow> (catch_response e, [SendRaw txBuffer, Confirm signature])
           | Inr err \<Rightarrow>
               if truthy err
               then ((402, JObj [(''error'', JStr ''Transaction failed''), (''details'', err)]),
                     [SendRaw txBuffer, Confirm signature])
               else
                 (case getTransaction env signature of
                    Inl e \<Rightarrow>
                      (catch_response e, [SendRaw txBuffer, Confirm signature, GetTx signature])
                  | Inr None \<Rightarrow>
                      ((402, JObj [(''error'', JStr ''Could not fetch transaction details'')]),
                       [SendRaw txBuffer, Confirm signature, GetTx signature])
                  | Inr (Some confirmedTx) \<Rightarrow>
                      (verify_amount cfg signature confirmedTx,
                       [SendRaw txBuffer, Confirm signature, GetTx signature]))))"

text \<open>
  The payment path up to the submission: ``Decode the payment header'', ``Extract the
  serialized transaction'' and ``Deserialize and verify transaction structure''. It ends
  either in a response (the \<^verbatim>\<open>catch\<close> block's, or ``Invalid transaction format'') or with
  the buffer to submit. The variable \<^verbatim>\<open>transaction\<close> is never read again.
\<close>

definition decode_and_deserialize :: "'tx env \<Rightarrow> string \<Rightarrow> response + bytes" where
  "decode_and_deserialize env xPaymentHeader =
     (case JSON_parse env (base64_utf8 env xPaymentHeader) of
        Inl e \<Rightarrow> Inl (catch_response e)
      | Inr paymentProof \<Rightarrow>
          (case txBuffer_of env paymentProof of
             Inl e \<Rightarrow> Inl (catch_response e)
           | Inr txBuffer \<Rightarrow>
               (case transaction_of env txBuffer of
                  None \<Rightarrow> Inl (402, JObj [(''error'', JStr ''Invalid transaction format'')])
                | Some transaction \<Rightarrow> Inr txBuffer)))"

text \<open>The payment path: the body of \<^verbatim>\<open>if (xPaymentHeader) { try { ... } catch (e) { ... } }\<close>.\<close>

definition with_payment :: "config \<Rightarrow> 'tx env \<Rightarrow> string \<Rightarrow> response \<times> rpc_call list" where
  "with_payment cfg env xPaymentHeader =
     (case decode_and_deserialize env xPaymentHeader of
        Inl r \<Rightarrow> (r, [])
      | Inr txBuffer \<Rightarrow> submit_and_verify cfg env txBuffer)"

text \<open>
  The handler. \<^verbatim>\<open>req.headers["x-payment"]\<close> is a string or \<^verbatim>\<open>undefined\<close> (\<open>None\<close>); it is
  truthy when it is a non-empty string. Every path of the payment branch returns, so the
  quote is sent only without a payment header.
\<close>

definition premium_handler ::
  "config \<Rightarrow> 'tx env \<Rightarrow> string option \<Rightarrow> response \<times> rpc_call list" where
  "premium_handler cfg env xPaymentHeader =
     (case xPaymentHeader of
        None \<Rightarrow> ((402, payment_quote cfg), [])
      | Some h \<Rightarrow> if h \<noteq> [] then with_payment cfg env h else ((402, payment_quote cfg), []))"


subsection \<open>The server over a sequence of requests\<close>

text \<open>
  Express calls the handler once per request. The handler reads the start-up constants
  and writes no variable that outlives the request, so a run over several requests is the
  handler applied to each, every request with the answers the libraries and the RPC node
  give at that time. The result lists the responses and, in order, all RPC requests issued.
\<close>

definition serve ::
  "config \<Rightarrow> ('tx env \<times> string option) list \<Rightarrow> response list \<times> rpc_call list" where
  "serve cfg reqs =
     (map (\<lambda>(env, h). fst (premium_handler cfg env h)) reqs,
      concat (map (\<lambda>(env, h). snd (premium_handler cfg env h)) reqs))"

subsection \<open>Notions used in the statements\<close>

text \<open>The transactions handed to \<^verbatim>\<open>sendRawTransaction\<close> in a list of RPC requests.\<close>

fun submissions :: "rpc_call list \<Rightarrow> bytes list" where
  "submissions [] = []"
| "submissions (SendRaw b # cs) = b # submissions cs"
| "submissions (c # cs) = submissions cs"

text \<open>
  The buffer a request makes the handler submit, if any: the header is truthy and the
  payment path reaches the submission.
\<close>

definition tx_to_submit :: "'tx env \<Rightarrow> string option \<Rightarrow> bytes option" where
  "tx_to_submit env xPaymentHeader =
     (case xPaymentHeader of
        None \<Rightarrow> None
      | Some h \<Rightarrow>
          if h = [] then None
          else (case decode_and_deserialize env h of Inl r \<Rightarrow> None | Inr txBuffer \<Rightarrow> Some txBuffer))"

text \<open>
  A request whose transaction is confirmed on-chain: the payment path reaches the
  submission, \<^verbatim>\<open>sendRawTransaction\<close> gives \<open>signature\<close>, \<^verbatim>\<open>confirmTransaction\<close> reports no
  error, and \<^verbatim>\<open>getTransaction\<close> gives \<open>confirmedTx\<close>.
\<close>

definition confirmed_on_chain ::
  "'tx env \<Rightarrow> string option \<Rightarrow> bytes \<Rightarrow> string \<Rightarrow> confirmed_tx \<Rightarrow> bool" where
  "confirmed_on_chain env xPaymentHeader txBuffer signature confirmedTx \<longleftrightarrow>
     tx_to_submit env xPaymentHeader = Some txBuffer
     \<and> sendRawTransaction env txBuffer = Inr signature
     \<and> (case confirmTransaction env signature of Inl e \<Rightarrow> False | Inr err \<Rightarrow> \<not> truthy err)
     \<and> getTransaction env signature = Inr (Some confirmedTx)"

text \<open>
  The post balances of a confirmed transaction have an entry for the recipient's token
  account: an entry whose account key is that account.
\<close>

definition has_recipient_entry :: "config \<Rightarrow> confirmed_tx \<Rightarrow> bool" where
  "has_recipient_entry cfg confirmedTx \<longleftrightarrow>
     list_ex (\<lambda>postBal. accountIndex postBal < length (staticAccountKeys confirmedTx)
                       \<and> staticAccountKeys confirmedTx ! accountIndex postBal = RECIPIENT_TOKEN_ACCOUNT cfg)
       (balances_or_empty (meta confirmedTx) postTokenBalances)"

text \<open>
  The balance delta of the recipient's token account, in the words of the specification
  (``the actual amount transferred to \<^verbatim>\<open>payTo\<close> (balance delta)''), not of the code: the
  balance a list of token balances records for an account is the amount of the entry of
  that account (0 when it has none), and the delta is the balance after the transaction
  minus the balance before it, as integers.
\<close>

definition token_balance_of :: "pubkey list \<Rightarrow> token_balance list \<Rightarrow> pubkey \<Rightarrow> nat" where
  "token_balance_of keys balances account =
     (case find (\<lambda>b. accountIndex b < length keys \<and> keys ! accountIndex b = account) balances of
        None \<Rightarrow> 0
      | Some b \<Rightarrow> uiTokenAmount_amount b)"

definition recipient_balance_before :: "config \<Rightarrow> confirmed_tx \<Rightarrow> nat" where
  "recipient_balance_before cfg confirmedTx =
     token_balance_of (staticAccountKeys confirmedTx)
       (balances_or_empty (meta confirmedTx) preTokenBalances) (RECIPIENT_TOKEN_ACCOUNT cfg)"

definition recipient_balance_after :: "config \<Rightarrow> confirmed_tx \<Rightarrow> nat" where
  "recipient_balance_after cfg confirmedTx =
     token_balance_of (staticAccountKeys confirmedTx)
       (balances_or_empty (meta confirmedTx) postTokenBalances) (RECIPIENT_TOKEN_ACCOUNT cfg)"

definition recipient_balance_delta :: "config \<Rightarrow> confirmed_tx \<Rightarrow> int" where
  "recipient_balance_delta cfg confirmedTx =
     int (recipient_balance_after cfg confirmedTx) - int (recipient_balance_before cfg confirmedTx)"

text \<open>\<^verbatim>\<open>Object.keys\<close> of a body.\<close>

fun keys_of :: "json \<Rightarrow> string list" where
  "keys_of (JObj kvs) = map fst kvs"
| "keys_of _ = []"

text \<open>
  The instructions of the transaction that \<^verbatim>\<open>examples/solana/client.js\<close> builds:
  \<^verbatim>\<open>createAssociatedTokenAccountInstruction(payer, associatedToken, owner, mint)\<close> when the
  recipient's token account does not exist, and
  \<^verbatim>\<open>createTransferInstruction(source, destination, owner, amount)\<close>. A deserialised
  transaction is taken as the list of its instructions where an example needs one.
\<close>

datatype instruction =
    CreateAssociatedTokenAccount pubkey pubkey pubkey pubkey
  | Transfer pubkey pubkey pubkey nat

subsection \<open>Example requests and worlds\<close>

text \<open>
  A server configured as the example is: price 1000000 (1 USDC), the devnet USDC mint.
\<close>

definition cfg0 :: config where
  "cfg0 = \<lparr> RECIPIENT_WALLET_publicKey = ''ServerWallet'',
            RECIPIENT_TOKEN_ACCOUNT = ''ServerUsdcAccount'',
            USDC_MINT = ''Gh9ZwEmdLJ8DscKNTkTqPbNwLNNBjuSzaG9Vp2KGtKJr'',
            PRICE_USDC = 1000000 \<rparr>"

text \<open>
  Serialised transactions, each written by a name for its bytes, and their base64 texts:
  a legacy transaction transferring 1000000 to the server's token account; one
  transferring 500000 to it; one transferring 1000000 to another account; a versioned
  transaction transferring 1000000 to the server's token account; and bytes that are no
  transaction.
\<close>

definition tx_bytes :: bytes where
  "tx_bytes = ''signed-transfer-tx''"

definition tx_base64 :: string where
  "tx_base64 = ''c2lnbmVkLXRyYW5zZmVyLXR4''"

definition tx_half_bytes :: bytes where
  "tx_half_bytes = ''signed-half-transfer-tx''"

definition tx_half_base64 :: string where
  "tx_half_base64 = ''c2lnbmVkLWhhbGYtdHJhbnNmZXItdHg=''"

definition tx_other_bytes :: bytes where
  "tx_other_bytes = ''signed-transfer-to-other-tx''"

definition tx_other_base64 :: string where
  "tx_other_base64 = ''c2lnbmVkLXRyYW5zZmVyLXRvLW90aGVyLXR4''"

definition tx_v0_bytes :: bytes where
  "tx_v0_bytes = ''signed-v0-transfer-tx''"

definition tx_v0_base64 :: string where
  "tx_v0_base64 = ''c2lnbmVkLXYwLXRyYW5zZmVyLXR4''"

definition tx_garbage_bytes :: bytes where
  "tx_garbage_bytes = ''not-a-transaction''"

definition tx_garbage_base64 :: string where
  "tx_garbage_base64 = ''bm90LWEtdHJhbnNhY3Rpb24=''"

text \<open>A legacy transaction transferring 999998 to the server's token account.\<close>

definition tx_short_bytes :: bytes where
  "tx_short_bytes = ''signed-short-transfer-tx''"

definition tx_short_base64 :: string where
  "tx_short_base64 = ''c2lnbmVkLXNob3J0LXRyYW5zZmVyLXR4''"

text \<open>
  The payment proof as \<^verbatim>\<open>examples/solana/client.js\<close> builds it, and what the
  \<^verbatim>\<open>x-payment\<close> header carries: the base64 of its JSON text. Each \<open>header_...\<close> below is the
  base64 of the \<open>text_...\<close> of the same name, and each \<open>proof_...\<close> is what that text parses to.
\<close>

definition client_paymentProof :: "rat \<Rightarrow> string \<Rightarrow> string \<Rightarrow> string \<Rightarrow> json" where
  "client_paymentProof version scheme network serializedTx =
     JObj [(''x402Version'', JNum version), (''scheme'', JStr scheme), (''network'', JStr network),
           (''payload'', JObj [(''serializedTransaction'', JStr serializedTx)])]"

text \<open>The client's payment: version 1, scheme \<^verbatim>\<open>exact\<close>, network \<^verbatim>\<open>solana-devnet\<close>.\<close>

definition text_exact :: string where
  \<open>text_exact = ''{"x402Version":1,"scheme":"exact","network":"solana-devnet","payload":{"serializedTransaction":"c2lnbmVkLXRyYW5zZmVyLXR4"}}''\<close>

definition header_exact :: string where
  "header_exact = ''eyJ4NDAyVmVyc2lvbiI6MSwic2NoZW1lIjoiZXhhY3QiLCJuZXR3b3JrIjoic29sYW5hLWRldm5ldCIsInBheWxvYWQiOnsic2VyaWFsaXplZFRyYW5zYWN0aW9uIjoiYzJsbmJtVmtMWFJ5WVc1elptVnlMWFI0In19''"

definition proof_exact :: json where
  "proof_exact = client_paymentProof 1 ''exact'' ''solana-devnet'' tx_base64"

text \<open>The same proof around the transfer of 500000.\<close>

definition text_half :: string where
  \<open>text_half = ''{"x402Version":1,"scheme":"exact","network":"solana-devnet","payload":{"serializedTransaction":"c2lnbmVkLWhhbGYtdHJhbnNmZXItdHg="}}''\<close>

definition header_half :: string where
  "header_half = ''eyJ4NDAyVmVyc2lvbiI6MSwic2NoZW1lIjoiZXhhY3QiLCJuZXR3b3JrIjoic29sYW5hLWRldm5ldCIsInBheWxvYWQiOnsic2VyaWFsaXplZFRyYW5zYWN0aW9uIjoiYzJsbmJtVmtMV2hoYkdZdGRISmhibk5tWlhJdGRIZz0ifX0=''"

definition proof_half :: json where
  "proof_half = client_paymentProof 1 ''exact'' ''solana-devnet'' tx_half_base64"

text \<open>The same proof around the transfer of 999998.\<close>

definition text_short :: string where
  \<open>text_short = ''{"x402Version":1,"scheme":"exact","network":"solana-devnet","payload":{"serializedTransaction":"c2lnbmVkLXNob3J0LXRyYW5zZmVyLXR4"}}''\<close>

definition header_short :: string where
  "header_short = ''eyJ4NDAyVmVyc2lvbiI6MSwic2NoZW1lIjoiZXhhY3QiLCJuZXR3b3JrIjoic29sYW5hLWRldm5ldCIsInBheWxvYWQiOnsic2VyaWFsaXplZFRyYW5zYWN0aW9uIjoiYzJsbmJtVmtMWE5vYjNKMExYUnlZVzV6Wm1WeUxYUjQifX0=''"

definition proof_short :: json where
  "proof_short = client_paymentProof 1 ''exact'' ''solana-devnet'' tx_short_base64"

text \<open>The same proof around the transfer to another account.\<close>

definition text_other :: string where
  \<open>text_other = ''{"x402Version":1,"scheme":"exact","network":"solana-devnet","payload":{"serializedTransaction":"c2lnbmVkLXRyYW5zZmVyLXRvLW90aGVyLXR4"}}''\<close>

definition header_other :: string where
  "header_other = ''eyJ4NDAyVmVyc2lvbiI6MSwic2NoZW1lIjoiZXhhY3QiLCJuZXR3b3JrIjoic29sYW5hLWRldm5ldCIsInBheWxvYWQiOnsic2VyaWFsaXplZFRyYW5zYWN0aW9uIjoiYzJsbmJtVmtMWFJ5WVc1elptVnlMWFJ2TFc5MGFHVnlMWFI0In19''"

definition proof_other :: json where
  "proof_other = client_paymentProof 1 ''exact'' ''solana-devnet'' tx_other_base64"

text \<open>The same proof around the versioned transaction.\<close>

definition text_v0 :: string where
  \<open>text_v0 = ''{"x402Version":1,"scheme":"exact","network":"solana-devnet","payload":{"serializedTransaction":"c2lnbmVkLXYwLXRyYW5zZmVyLXR4"}}''\<close>

definition header_v0 :: string where
  "header_v0 = ''eyJ4NDAyVmVyc2lvbiI6MSwic2NoZW1lIjoiZXhhY3QiLCJuZXR3b3JrIjoic29sYW5hLWRldm5ldCIsInBheWxvYWQiOnsic2VyaWFsaXplZFRyYW5zYWN0aW9uIjoiYzJsbmJtVmtMWFl3TFhSeVlXNXpabVZ5TFhSNCJ9fQ==''"

definition proof_v0 :: json where
  "proof_v0 = client_paymentProof 1 ''exact'' ''solana-devnet'' tx_v0_base64"

text \<open>The same proof around bytes that are no transaction.\<close>

definition text_garbage :: string where
  \<open>text_garbage = ''{"x402Version":1,"scheme":"exact","network":"solana-devnet","payload":{"serializedTransaction":"bm90LWEtdHJhbnNhY3Rpb24="}}''\<close>

definition header_garbage :: string where
  "header_garbage = ''eyJ4NDAyVmVyc2lvbiI6MSwic2NoZW1lIjoiZXhhY3QiLCJuZXR3b3JrIjoic29sYW5hLWRldm5ldCIsInBheWxvYWQiOnsic2VyaWFsaXplZFRyYW5zYWN0aW9uIjoiYm05MExXRXRkSEpoYm5OaFkzUnBiMjQ9In19''"

definition proof_garbage :: json where
  "proof_garbage = client_paymentProof 1 ''exact'' ''solana-devnet'' tx_garbage_base64"

text \<open>The client's transaction offered under scheme \<^verbatim>\<open>upto\<close> on network \<^verbatim>\<open>base\<close>.\<close>

definition text_upto_base :: string where
  \<open>text_upto_base = ''{"x402Version":1,"scheme":"upto","network":"base","payload":{"serializedTransaction":"c2lnbmVkLXRyYW5zZmVyLXR4"}}''\<close>

definition header_upto_base :: string where
  "header_upto_base = ''eyJ4NDAyVmVyc2lvbiI6MSwic2NoZW1lIjoidXB0byIsIm5ldHdvcmsiOiJiYXNlIiwicGF5bG9hZCI6eyJzZXJpYWxpemVkVHJhbnNhY3Rpb24iOiJjMmxuYm1Wa0xYUnlZVzV6Wm1WeUxYUjQifX0=''"

definition proof_upto_base :: json where
  "proof_upto_base = client_paymentProof 1 ''upto'' ''base'' tx_base64"

text \<open>The client's transaction with \<^verbatim>\<open>x402Version\<close> 99 and empty scheme and network.\<close>

definition text_v99 :: string where
  \<open>text_v99 = ''{"x402Version":99,"scheme":"","network":"","payload":{"serializedTransaction":"c2lnbmVkLXRyYW5zZmVyLXR4"}}''\<close>

definition header_v99 :: string where
  "header_v99 = ''eyJ4NDAyVmVyc2lvbiI6OTksInNjaGVtZSI6IiIsIm5ldHdvcmsiOiIiLCJwYXlsb2FkIjp7InNlcmlhbGl6ZWRUcmFuc2FjdGlvbiI6ImMybG5ibVZrTFhSeVlXNXpabVZ5TFhSNCJ9fQ==''"

definition proof_v99 :: json where
  "proof_v99 = client_paymentProof 99 [] [] tx_base64"

text \<open>A proof without a \<^verbatim>\<open>payload\<close>.\<close>

definition text_no_payload :: string where
  \<open>text_no_payload = ''{"x402Version":1,"scheme":"exact","network":"solana-devnet"}''\<close>

definition header_no_payload :: string where
  "header_no_payload = ''eyJ4NDAyVmVyc2lvbiI6MSwic2NoZW1lIjoiZXhhY3QiLCJuZXR3b3JrIjoic29sYW5hLWRldm5ldCJ9''"

definition proof_no_payload :: json where
  "proof_no_payload = JObj [(''x402Version'', JNum 1), (''scheme'', JStr ''exact''),
                            (''network'', JStr ''solana-devnet'')]"

text \<open>A header whose text is cut off, so that \<^verbatim>\<open>JSON.parse\<close> throws.\<close>

definition text_truncated :: string where
  \<open>text_truncated = ''{"x402Version":1,''\<close>

definition header_truncated :: string where
  "header_truncated = ''eyJ4NDAyVmVyc2lvbiI6MSw=''"

text \<open>
  What the RPC node reports for the confirmed transactions. In \<open>ctx_paid\<close> the account keys
  are the payer, the payer's token account, the server's token account and the token
  program, and the server's account (index 2) goes from 3000000 to 4000000; in
  \<open>ctx_underpaid\<close> it goes from 3000000 to 3500000; in \<open>ctx_elsewhere\<close> the third key is another token account, which
  gets the 1000000, and the server's account has no entry. In \<open>ctx_large\<close> the server's
  account holds 9007199254740993 (\<open>2^53 + 1\<close>) before and 9007199255740991 after: it
  received 999998. In \<open>ctx_short\<close> it received the same 999998 on a balance of 3000000.
\<close>

definition ctx_paid :: confirmed_tx where
  "ctx_paid =
     \<lparr> meta = Some \<lparr> preTokenBalances =
                         Some [\<lparr>accountIndex = 1, uiTokenAmount_amount = 5000000\<rparr>,
                               \<lparr>accountIndex = 2, uiTokenAmount_amount = 3000000\<rparr>],
                       postTokenBalances =
                         Some [\<lparr>accountIndex = 1, uiTokenAmount_amount = 4000000\<rparr>,
                               \<lparr>accountIndex = 2, uiTokenAmount_amount = 4000000\<rparr>] \<rparr>,
       staticAccountKeys = [''Payer'', ''PayerUsdcAccount'', ''ServerUsdcAccount'', ''TokenProgram''] \<rparr>"

definition ctx_underpaid :: confirmed_tx where
  "ctx_underpaid =
     \<lparr> meta = Some \<lparr> preTokenBalances =
                         Some [\<lparr>accountIndex = 1, uiTokenAmount_amount = 5000000\<rparr>,
                               \<lparr>accountIndex = 2, uiTokenAmount_amount = 3000000\<rparr>],
                       postTokenBalances =
                         Some [\<lparr>accountIndex = 1, uiTokenAmount_amount = 4500000\<rparr>,
                               \<lparr>accountIndex = 2, uiTokenAmount_amount = 3500000\<rparr>] \<rparr>,
       staticAccountKeys = [''Payer'', ''PayerUsdcAccount'', ''ServerUsdcAccount'', ''TokenProgram''] \<rparr>"

definition ctx_elsewhere :: confirmed_tx where
  "ctx_elsewhere =
     \<lparr> meta = Some \<lparr> preTokenBalances =
                         Some [\<lparr>accountIndex = 1, uiTokenAmount_amount = 5000000\<rparr>,
                               \<lparr>accountIndex = 2, uiTokenAmount_amount = 0\<rparr>],
                       postTokenBalances =
                         Some [\<lparr>accountIndex = 1, uiTokenAmount_amount = 4000000\<rparr>,
                               \<lparr>accountIndex = 2, uiTokenAmount_amount = 1000000\<rparr>] \<rparr>,
       staticAccountKeys = [''Payer'', ''PayerUsdcAccount'', ''OtherUsdcAccount'', ''TokenProgram''] \<rparr>"

definition ctx_large :: confirmed_tx where
  "ctx_large =
     \<lparr> meta = Some \<lparr> preTokenBalances =
                         Some [\<lparr>accountIndex = 1, uiTokenAmount_amount = 5000000\<rparr>,
                               \<lparr>accountIndex = 2, uiTokenAmount_amount = 9007199254740993\<rparr>],
                       postTokenBalances =
                         Some [\<lparr>accountIndex = 1, uiTokenAmount_amount = 4000002\<rparr>,
                               \<lparr>accountIndex = 2, uiTokenAmount_amount = 9007199255740991\<rparr>] \<rparr>,
       staticAccountKeys = [''Payer'', ''PayerUsdcAccount'', ''ServerUsdcAccount'', ''TokenProgram''] \<rparr>"

definition ctx_short :: confirmed_tx where
  "ctx_short =
     \<lparr> meta = Some \<lparr> preTokenBalances =
                         Some [\<lparr>accountIndex = 1, uiTokenAmount_amount = 5000000\<rparr>,
                               \<lparr>accountIndex = 2, uiTokenAmount_amount = 3000000\<rparr>],
                       postTokenBalances =
                         Some [\<lparr>accountIndex = 1, uiTokenAmount_amount = 4000002\<rparr>,
                               \<lparr>accountIndex = 2, uiTokenAmount_amount = 3999998\<rparr>] \<rparr>,
       staticAccountKeys = [''Payer'', ''PayerUsdcAccount'', ''ServerUsdcAccount'', ''TokenProgram''] \<rparr>"

text \<open>
  A world with a reachable RPC node that accepts and confirms what it is sent. The headers
  decode to the proofs above; the transactions deserialise as described (to the list of
  their instructions); the node answers each submission with the signature of the
  transaction, confirms it without error and reports the balances above.
\<close>

definition env_paid :: "instruction list env" where
  "env_paid =
     \<lparr> base64_utf8 = (\<lambda>h. if h = header_exact then text_exact
                          else if h = header_half then text_half
                          else if h = header_short then text_short
                          else if h = header_other then text_other
                          else if h = header_v0 then text_v0
                          else if h = header_garbage then text_garbage
                          else if h = header_upto_base then text_upto_base
                          else if h = header_v99 then text_v99
                          else if h = header_no_payload then text_no_payload
                          else if h = header_truncated then text_truncated
                          else []),
       JSON_parse = (\<lambda>t. if t = text_exact then Inr proof_exact
                         else if t = text_half then Inr proof_half
                         else if t = text_short then Inr proof_short
                         else if t = text_other then Inr proof_other
                         else if t = text_v0 then Inr proof_v0
                         else if t = text_garbage then Inr proof_garbage
                         else if t = text_upto_base then Inr proof_upto_base
                         else if t = text_v99 then Inr proof_v99
                         else if t = text_no_payload then Inr proof_no_payload
                         else Inl (Error ''Unexpected end of JSON input'')),
       Buffer_from = (\<lambda>v. if v = Some (JStr tx_base64) then Inr tx_bytes
                          else if v = Some (JStr tx_half_base64) then Inr tx_half_bytes
                          else if v = Some (JStr tx_short_base64) then Inr tx_short_bytes
                          else if v = Some (JStr tx_other_base64) then Inr tx_other_bytes
                          else if v = Some (JStr tx_v0_base64) then Inr tx_v0_bytes
                          else if v = Some (JStr tx_garbage_base64) then Inr tx_garbage_bytes
                          else Inl (Error ''The first argument must be of type string or an instance of Buffer, ArrayBuffer, or Array or an Array-like Object.'')),
       Transaction_from =
         (\<lambda>b. if b = tx_bytes
              then Some [Transfer ''PayerUsdcAccount'' ''ServerUsdcAccount'' ''Payer'' 1000000]
              else if b = tx_half_bytes
              then Some [Transfer ''PayerUsdcAccount'' ''ServerUsdcAccount'' ''Payer'' 500000]
              else if b = tx_short_bytes
              then Some [Transfer ''PayerUsdcAccount'' ''ServerUsdcAccount'' ''Payer'' 999998]
              else if b = tx_other_bytes
              then Some [Transfer ''PayerUsdcAccount'' ''OtherUsdcAccount'' ''Payer'' 1000000]
              else None),
       VersionedTransaction_deserialize =
         (\<lambda>b. if b = tx_v0_bytes
              then Some [Transfer ''PayerUsdcAccount'' ''ServerUsdcAccount'' ''Payer'' 1000000]
              else None),
       sendRawTransaction =
         (\<lambda>b. if b = tx_bytes then Inr ''sig1''
              else if b = tx_half_bytes then Inr ''sig2''
              else if b = tx_other_bytes then Inr ''sig3''
              else if b = tx_v0_bytes then Inr ''sig4''
              else if b = tx_short_bytes then Inr ''sig5''
              else Inl (Error ''failed to send transaction: failed to deserialize transaction'')),
       confirmTransaction = (\<lambda>s. Inr JNull),
       getTransaction =
         (\<lambda>s. if s = ''sig1'' \<or> s = ''sig4'' then Inr (Some ctx_paid)
              else if s = ''sig2'' then Inr (Some ctx_underpaid)
              else if s = ''sig3'' then Inr (Some ctx_elsewhere)
              else if s = ''sig5'' then Inr (Some ctx_large)
              else Inr None) \<rparr>"

text \<open>
  The same world at moments when the RPC node answers otherwise: the transaction was
  processed before; the node cannot be reached; the confirmation times out; the node
  cannot be reached when the confirmed transaction is fetched; the node does not yet
  return the confirmed transaction.
\<close>

definition env_replayed :: "instruction list env" where
  "env_replayed =
     env_paid \<lparr> sendRawTransaction := (\<lambda>b. Inl (Error ''failed to send transaction: Transaction simulation failed: This transaction has already been processed'')) \<rparr>"

definition env_unreachable :: "instruction list env" where
  "env_unreachable = env_paid \<lparr> sendRawTransaction := (\<lambda>b. Inl (Error ''fetch failed'')) \<rparr>"

definition env_confirm_timeout :: "instruction list env" where
  "env_confirm_timeout =
     env_paid \<lparr> confirmTransaction := (\<lambda>s. Inl (Error ''Transaction was not confirmed in 30.00 seconds. It is unknown if it succeeded or failed. Check signature sig1 using the Solana Explorer or CLI tools.'')) \<rparr>"

definition env_fetch_unreachable :: "instruction list env" where
  "env_fetch_unreachable = env_paid \<lparr> getTransaction := (\<lambda>s. Inl (Error ''fetch failed'')) \<rparr>"

definition env_fetch_null :: "instruction list env" where
  "env_fetch_null = env_paid \<lparr> getTransaction := (\<lambda>s. Inr None) \<rparr>"

text \<open>
  The same world when the server's token account held 3000000 at the time of the transfer
  of 999998.
\<close>

definition env_small_balance :: "instruction list env" where
  "env_small_balance = env_paid \<lparr> getTransaction := (\<lambda>s. Inr (Some ctx_short)) \<rparr>"

section \<open>Properties of the handler\<close>

subsection \<open>Auxiliary facts\<close>

lemma submissions_append: "submissions (xs @ ys) = submissions xs @ submissions ys"
  by (induction xs rule: submissions.induct) auto

lemma handler_without_header:
  "hdr = None \<or> hdr = Some [] \<Longrightarrow> premium_handler cfg env hdr = ((402, payment_quote cfg), [])"
  by (auto simp: premium_handler_def)

lemma handler_rejected_before_submission:
  "h \<noteq> [] \<Longrightarrow> decode_and_deserialize env h = Inl r \<Longrightarrow> premium_handler cfg env (Some h) = (r, [])"
  by (simp add: premium_handler_def with_payment_def)

lemma handler_submits:
  "h \<noteq> [] \<Longrightarrow> decode_and_deserialize env h = Inr txBuffer
   \<Longrightarrow> premium_handler cfg env (Some h) = submit_and_verify cfg env txBuffer"
  by (simp add: premium_handler_def with_payment_def)

lemma tx_to_submit_Some:
  "tx_to_submit env hdr = Some txBuffer \<longleftrightarrow>
     (\<exists>h. hdr = Some h \<and> h \<noteq> [] \<and> decode_and_deserialize env h = Inr txBuffer)"
  by (auto simp: tx_to_submit_def split: option.splits sum.splits if_splits)

lemma handler_of_tx_to_submit:
  "tx_to_submit env hdr = Some txBuffer \<Longrightarrow> premium_handler cfg env hdr = submit_and_verify cfg env txBuffer"
  by (auto simp: tx_to_submit_Some handler_submits)

lemma handler_of_no_tx:
  "tx_to_submit env hdr = None \<Longrightarrow> snd (premium_handler cfg env hdr) = []"
  by (auto simp: tx_to_submit_def premium_handler_def with_payment_def split: option.splits sum.splits if_splits)

lemma submit_and_verify_confirmed:
  assumes "sendRawTransaction env txBuffer = Inr signature"
    and "confirmTransaction env signature = Inr err" and "\<not> truthy err"
    and "getTransaction env signature = Inr (Some confirmedTx)"
  shows "submit_and_verify cfg env txBuffer =
           (verify_amount cfg signature confirmedTx,
            [SendRaw txBuffer, Confirm signature, GetTx signature])"
  using assms by (simp add: submit_and_verify_def)

lemma handler_confirmed:
  assumes "confirmed_on_chain env hdr txBuffer signature confirmedTx"
  shows "premium_handler cfg env hdr =
           (verify_amount cfg signature confirmedTx,
            [SendRaw txBuffer, Confirm signature, GetTx signature])"
  using assms
  by (auto simp: confirmed_on_chain_def handler_of_tx_to_submit submit_and_verify_confirmed
      split: sum.splits)

lemma submit_and_verify_200:
  assumes "fst (fst (submit_and_verify cfg env txBuffer)) = 200"
  shows "\<exists>signature err confirmedTx.
           sendRawTransaction env txBuffer = Inr signature
           \<and> confirmTransaction env signature = Inr err \<and> \<not> truthy err
           \<and> getTransaction env signature = Inr (Some confirmedTx)
           \<and> PRICE_USDC cfg \<le> amountReceived_of cfg confirmedTx"
  using assms
  by (auto simp: submit_and_verify_def catch_response_def verify_amount_def Let_def
      split: sum.splits option.splits if_splits)

lemma handler_200:
  assumes "fst (fst (premium_handler cfg env hdr)) = 200"
  shows "\<exists>txBuffer. tx_to_submit env hdr = Some txBuffer"
  using assms
  by (cases "tx_to_submit env hdr")
     (auto simp: tx_to_submit_def premium_handler_def with_payment_def payment_quote_def
        decode_and_deserialize_def catch_response_def
        split: option.splits sum.splits if_splits)

subsection \<open>Content is released on the computed amount\<close>

text \<open>
  For a request whose transaction is confirmed on-chain, the handler fetches the confirmed
  transaction and compares the amount it computes, \<^verbatim>\<open>amountReceived\<close>, with the price:
  below the price it answers 402 with the insufficient-payment error and no content,
  otherwise 200 with the content. Conversely a 200 is sent only for a confirmed
  transaction whose computed amount is at least the price, after the three RPC requests.
\<close>

lemma content_iff_computed_amount:
  "(confirmed_on_chain env hdr txBuffer signature confirmedTx \<longrightarrow>
      premium_handler cfg env hdr =
        ((if amountReceived_of cfg confirmedTx < PRICE_USDC cfg
          then (402, JObj [(''error'', JStr (insufficient_payment (amountReceived_of cfg confirmedTx) (PRICE_USDC cfg)))])
          else (200, premium_content cfg signature (amountReceived_of cfg confirmedTx))),
         [SendRaw txBuffer, Confirm signature, GetTx signature]))
   \<and> (fst (fst (premium_handler cfg env hdr)) = 200 \<longrightarrow>
        (\<exists>b s c. confirmed_on_chain env hdr b s c
                 \<and> PRICE_USDC cfg \<le> amountReceived_of cfg c
                 \<and> premium_handler cfg env hdr =
                     ((200, premium_content cfg s (amountReceived_of cfg c)),
                      [SendRaw b, Confirm s, GetTx s])))"
proof (intro conjI impI)
  assume "confirmed_on_chain env hdr txBuffer signature confirmedTx"
  then show "premium_handler cfg env hdr =
        ((if amountReceived_of cfg confirmedTx < PRICE_USDC cfg
          then (402, JObj [(''error'', JStr (insufficient_payment (amountReceived_of cfg confirmedTx) (PRICE_USDC cfg)))])
          else (200, premium_content cfg signature (amountReceived_of cfg confirmedTx))),
         [SendRaw txBuffer, Confirm signature, GetTx signature])"
    by (simp add: handler_confirmed verify_amount_def Let_def)
next
  assume ok: "fst (fst (premium_handler cfg env hdr)) = 200"
  then obtain b where b: "tx_to_submit env hdr = Some b"
    using handler_200 by blast
  then have h: "premium_handler cfg env hdr = submit_and_verify cfg env b"
    by (rule handler_of_tx_to_submit)
  with ok obtain s err c where
    sc: "sendRawTransaction env b = Inr s"
        "confirmTransaction env s = Inr err" "\<not> truthy err"
        "getTransaction env s = Inr (Some c)"
        "PRICE_USDC cfg \<le> amountReceived_of cfg c"
    using submit_and_verify_200 [of cfg env b] by auto
  have conf: "confirmed_on_chain env hdr b s c"
    using b sc by (simp add: confirmed_on_chain_def)
  have "premium_handler cfg env hdr =
          ((200, premium_content cfg s (amountReceived_of cfg c)), [SendRaw b, Confirm s, GetTx s])"
    using handler_confirmed [OF conf, of cfg] sc(5) by (simp add: verify_amount_def Let_def)
  with conf sc(5) show "\<exists>b s c. confirmed_on_chain env hdr b s c
                 \<and> PRICE_USDC cfg \<le> amountReceived_of cfg c
                 \<and> premium_handler cfg env hdr =
                     ((200, premium_content cfg s (amountReceived_of cfg c)),
                      [SendRaw b, Confirm s, GetTx s])"
    by blast
qed

text \<open>Evaluation of the example worlds.\<close>

lemmas example_defs =
  cfg0_def client_paymentProof_def
  tx_bytes_def tx_base64_def tx_half_bytes_def tx_half_base64_def
  tx_short_bytes_def tx_short_base64_def
  tx_other_bytes_def tx_other_base64_def tx_v0_bytes_def tx_v0_base64_def
  tx_garbage_bytes_def tx_garbage_base64_def
  text_exact_def header_exact_def proof_exact_def
  text_half_def header_half_def proof_half_def
  text_short_def header_short_def proof_short_def
  text_other_def header_other_def proof_other_def
  text_v0_def header_v0_def proof_v0_def
  text_garbage_def header_garbage_def proof_garbage_def
  text_upto_base_def header_upto_base_def proof_upto_base_def
  text_v99_def header_v99_def proof_v99_def
  text_no_payload_def header_no_payload_def proof_no_payload_def
  text_truncated_def header_truncated_def
  ctx_paid_def ctx_underpaid_def ctx_elsewhere_def ctx_large_def ctx_short_def
  env_paid_def env_replayed_def env_unreachable_def
  env_confirm_timeout_def env_fetch_unreachable_def env_fetch_null_def env_small_balance_def

lemmas stage_defs =
  decode_and_deserialize_def txBuffer_of_def transaction_of_def tx_to_submit_def
  confirmed_on_chain_def

lemma price0: "PRICE_USDC cfg0 = 1000000"
  by (simp add: cfg0_def)

subsection \<open>The computed amount and the balance delta\<close>

text \<open>Integers below \<open>2^53\<close> are converted and subtracted without rounding.\<close>

lemma excess_bits_small: "n < 2 ^ 53 \<Longrightarrow> excess_bits n = 0"
  by (simp add: excess_bits.simps)

lemma nearest_double_exact: "n < 2 ^ 53 \<Longrightarrow> nearest_double n = n"
  by (simp add: nearest_double_def excess_bits_small)

lemma Number_exact: "n < 2 ^ 53 \<Longrightarrow> Number n = int n"
  by (simp add: Number_def nearest_double_exact)

lemma minus_double_exact:
  assumes "\<bar>a - b\<bar> < 2 ^ 53"
  shows "minus_double a b = a - b"
proof (cases "a - b < 0")
  case True
  with assms have "nat (b - a) < 2 ^ 53" by simp
  then have "nearest_double (nat (b - a)) = nat (b - a)" by (rule nearest_double_exact)
  with True show ?thesis by (simp add: minus_double_def)
next
  case False
  with assms have "nat (a - b) < 2 ^ 53" by simp
  then have "nearest_double (nat (a - b)) = nat (a - b)" by (rule nearest_double_exact)
  with False show ?thesis by (simp add: minus_double_def)
qed

text \<open>
  With distinct account keys, the entry the loop stops at is the entry of the recipient's
  token account, and the pre entry that \<^verbatim>\<open>find\<close> gives by its index is the entry of that
  account: the loop computes the difference of the two recorded balances, in doubles.
\<close>

lemma amountReceived_loop_entry:
  assumes "distinct keys"
    and "list_ex (\<lambda>b. accountIndex b < length keys \<and> keys ! accountIndex b = r) posts"
  shows "amountReceived_loop r keys pres posts =
           minus_double (Number (token_balance_of keys posts r)) (Number (token_balance_of keys pres r))"
  using assms(2)
proof (induction posts)
  case Nil
  then show ?case by simp
next
  case (Cons postBal rest)
  show ?case
  proof (cases "accountIndex postBal < length keys \<and> keys ! accountIndex postBal = r")
    case True
    have "find (\<lambda>b. accountIndex b < length keys \<and> keys ! accountIndex b = r) pres
            = find (\<lambda>pre. accountIndex pre = accountIndex postBal) pres"
      using True assms(1) by (intro find_cong) (auto simp: nth_eq_iff_index_eq)
    then have "token_balance_of keys pres r =
                 (case find (\<lambda>pre. accountIndex pre = accountIndex postBal) pres of
                    None \<Rightarrow> 0 | Some preBal \<Rightarrow> uiTokenAmount_amount preBal)"
      by (simp add: token_balance_of_def)
    moreover have "token_balance_of keys (postBal # rest) r = uiTokenAmount_amount postBal"
      using True by (simp add: token_balance_of_def)
    ultimately show ?thesis using True by simp
  next
    case False
    with Cons.prems have "list_ex (\<lambda>b. accountIndex b < length keys \<and> keys ! accountIndex b = r) rest"
      by auto
    then have "amountReceived_loop r keys pres rest =
                 minus_double (Number (token_balance_of keys rest r)) (Number (token_balance_of keys pres r))"
      by (rule Cons.IH)
    moreover have "token_balance_of keys (postBal # rest) r = token_balance_of keys rest r"
      using False by (auto simp: token_balance_of_def)
    ultimately show ?thesis using False by auto
  qed
qed

lemma amountReceived_of_entry:
  assumes "distinct (staticAccountKeys confirmedTx)" and "has_recipient_entry cfg confirmedTx"
  shows "amountReceived_of cfg confirmedTx =
           minus_double (Number (recipient_balance_after cfg confirmedTx))
                        (Number (recipient_balance_before cfg confirmedTx))"
  using assms
  by (simp add: amountReceived_of_def has_recipient_entry_def recipient_balance_after_def
      recipient_balance_before_def amountReceived_loop_entry)

text \<open>Below \<open>2^53\<close> the computed amount is the balance delta.\<close>

lemma amountReceived_of_exact:
  assumes "distinct (staticAccountKeys confirmedTx)" and "has_recipient_entry cfg confirmedTx"
    and "recipient_balance_before cfg confirmedTx < 2 ^ 53"
    and "recipient_balance_after cfg confirmedTx < 2 ^ 53"
  shows "amountReceived_of cfg confirmedTx = recipient_balance_delta cfg confirmedTx"
proof -
  have "int (recipient_balance_before cfg confirmedTx) < 2 ^ 53"
    and "int (recipient_balance_after cfg confirmedTx) < 2 ^ 53"
    using assms(3,4) by simp_all
  then have "\<bar>int (recipient_balance_after cfg confirmedTx) - int (recipient_balance_before cfg confirmedTx)\<bar>
          < 2 ^ 53"
    by linarith
  then show ?thesis
    using assms
    by (simp add: amountReceived_of_entry Number_exact minus_double_exact recipient_balance_delta_def)
qed

text \<open>
  So, for balances of the recipient below \<open>2^53\<close>, a confirmed transaction is answered with
  the content exactly when the balance delta of the recipient's token account is at least
  the price.
\<close>

lemma content_iff_sufficient_delta_below_2_53:
  assumes "confirmed_on_chain env hdr txBuffer signature confirmedTx"
    and "distinct (staticAccountKeys confirmedTx)" and "has_recipient_entry cfg confirmedTx"
    and "recipient_balance_before cfg confirmedTx < 2 ^ 53"
    and "recipient_balance_after cfg confirmedTx < 2 ^ 53"
  shows "fst (fst (premium_handler cfg env hdr)) = 200
           \<longleftrightarrow> PRICE_USDC cfg \<le> recipient_balance_delta cfg confirmedTx"
  using handler_confirmed [OF assms(1), of cfg] amountReceived_of_exact [OF assms(2-5)]
  by (simp add: verify_amount_def Let_def)

text \<open>Evaluation of the examples.\<close>

lemma amountReceived_paid: "amountReceived_of cfg0 ctx_paid = 1000000"
  by (simp add: amountReceived_of_def balances_or_empty_def example_defs Number_exact
      minus_double_exact)

lemma confirmed_paid:
  "confirmed_on_chain env_paid (Some header_exact) tx_bytes ''sig1'' ctx_paid"
  by (simp add: stage_defs example_defs)

lemma Number_large:
  "Number 9007199254740993 = 9007199254740992" "Number 9007199255740991 = 9007199255740992"
  by (simp_all add: Number_def nearest_double_def excess_bits.simps)

lemma amountReceived_large: "amountReceived_of cfg0 ctx_large = 1000000"
  by (simp add: amountReceived_of_def balances_or_empty_def example_defs Number_large
      minus_double_exact)

lemma confirmed_large:
  "confirmed_on_chain env_paid (Some header_short) tx_short_bytes ''sig5'' ctx_large"
  by (simp add: stage_defs example_defs)

lemma amountReceived_short: "amountReceived_of cfg0 ctx_short = 999998"
  by (simp add: amountReceived_of_def balances_or_empty_def example_defs Number_exact
      minus_double_exact)

lemma confirmed_short:
  "confirmed_on_chain env_small_balance (Some header_short) tx_short_bytes ''sig5'' ctx_short"
  by (simp add: stage_defs example_defs)

text \<open>
  C1 holds for balances below \<open>2^53\<close> (the lemma above) and fails above: the code converts
  the balances with \<^verbatim>\<open>Number\<close>, which rounds them. The payer transfers 999998 to the
  server's token account, which held \<open>2^53 + 1\<close>; the balance delta is 999998, below the
  price of 1000000, but \<^verbatim>\<open>Number\<close> rounds the balance before down by 1 and the balance
  after up by 1, the computed amount is 1000000, and the handler answers 200 with the
  content. The same transfer into the account when it held 3000000 is answered with the
  402 for an insufficient payment.
\<close>

theorem content_released_for_underpayment_above_2_53:
  "Transaction_from env_paid tx_short_bytes
     = Some [Transfer ''PayerUsdcAccount'' ''ServerUsdcAccount'' ''Payer'' 999998]
   \<and> confirmed_on_chain env_paid (Some header_short) tx_short_bytes ''sig5'' ctx_large
   \<and> recipient_balance_before cfg0 ctx_large = 9007199254740993
   \<and> recipient_balance_after cfg0 ctx_large = 9007199255740991
   \<and> recipient_balance_delta cfg0 ctx_large = 999998
   \<and> PRICE_USDC cfg0 = 1000000
   \<and> Number 9007199254740993 = 9007199254740992
   \<and> Number 9007199255740991 = 9007199255740992
   \<and> amountReceived_of cfg0 ctx_large = 1000000
   \<and> premium_handler cfg0 env_paid (Some header_short) =
       ((200, premium_content cfg0 ''sig5'' 1000000),
        [SendRaw tx_short_bytes, Confirm ''sig5'', GetTx ''sig5''])
   \<and> recipient_balance_delta cfg0 ctx_short = 999998
   \<and> premium_handler cfg0 env_small_balance (Some header_short) =
       ((402, JObj [(''error'', JStr ''Insufficient payment: received 999998, expected 1000000'')]),
        [SendRaw tx_short_bytes, Confirm ''sig5'', GetTx ''sig5''])"
proof -
  have before: "recipient_balance_before cfg0 ctx_large = 9007199254740993"
    and after: "recipient_balance_after cfg0 ctx_large = 9007199255740991"
    by (simp_all add: recipient_balance_before_def recipient_balance_after_def
        token_balance_of_def balances_or_empty_def example_defs)
  have delta: "recipient_balance_delta cfg0 ctx_large = 999998"
    by (simp add: recipient_balance_delta_def before after)
  have delta': "recipient_balance_delta cfg0 ctx_short = 999998"
    by (simp add: recipient_balance_delta_def recipient_balance_before_def
        recipient_balance_after_def token_balance_of_def balances_or_empty_def example_defs)
  have tx: "Transaction_from env_paid tx_short_bytes
              = Some [Transfer ''PayerUsdcAccount'' ''ServerUsdcAccount'' ''Payer'' 999998]"
    by (simp add: example_defs)
  have answer: "premium_handler cfg0 env_paid (Some header_short) =
       ((200, premium_content cfg0 ''sig5'' 1000000),
        [SendRaw tx_short_bytes, Confirm ''sig5'', GetTx ''sig5''])"
    using handler_confirmed [OF confirmed_large, of cfg0]
    by (simp add: verify_amount_def amountReceived_large price0)
  have answer': "premium_handler cfg0 env_small_balance (Some header_short) =
       ((402, JObj [(''error'', JStr ''Insufficient payment: received 999998, expected 1000000'')]),
        [SendRaw tx_short_bytes, Confirm ''sig5'', GetTx ''sig5''])"
    using handler_confirmed [OF confirmed_short, of cfg0]
    by (simp add: verify_amount_def amountReceived_short price0 insufficient_payment_def
        String_of_int_def dec.simps digit_def)
  from tx confirmed_large before after delta price0 Number_large amountReceived_large answer
    delta' answer'
  show ?thesis by simp
qed

subsection \<open>Submissions are per request\<close>

lemma handler_submissions:
  "submissions (snd (premium_handler cfg env hdr)) =
     (case tx_to_submit env hdr of None \<Rightarrow> [] | Some txBuffer \<Rightarrow> [txBuffer])"
  by (auto simp: premium_handler_def tx_to_submit_def with_payment_def submit_and_verify_def
      split: option.splits sum.splits)

lemma decode_paid: "decode_and_deserialize env_paid header_exact = Inr tx_bytes"
  by (simp add: stage_defs example_defs)

lemma decode_replayed: "decode_and_deserialize env_replayed header_exact = Inr tx_bytes"
  by (simp add: stage_defs example_defs)

lemma handler_paid:
  "premium_handler cfg0 env_paid (Some header_exact) =
     ((200, premium_content cfg0 ''sig1'' 1000000),
      [SendRaw tx_bytes, Confirm ''sig1'', GetTx ''sig1''])"
  using handler_confirmed [OF confirmed_paid, of cfg0]
  by (simp add: verify_amount_def amountReceived_paid price0)

lemma handler_replayed:
  "premium_handler cfg0 env_replayed (Some header_exact) =
     ((402, JObj [(''error'', JStr ''Payment verification failed''),
                  (''details'', JStr ''failed to send transaction: Transaction simulation failed: This transaction has already been processed'')]),
      [SendRaw tx_bytes])"
proof -
  have "header_exact \<noteq> []" by (simp add: header_exact_def)
  then have "premium_handler cfg0 env_replayed (Some header_exact) = submit_and_verify cfg0 env_replayed tx_bytes"
    using decode_replayed by (rule handler_submits)
  then show ?thesis
    by (simp add: submit_and_verify_def catch_response_def env_replayed_def)
qed

text \<open>
  C2, as stated, fails. The same header is sent twice; the second time the node answers
  the submission with ``already processed''. The handler calls \<^verbatim>\<open>sendRawTransaction\<close>
  for both requests, and the two callers get different answers (200, then 402).
\<close>

theorem retry_submits_again_counterexample:
  "serve cfg0 [(env_paid, Some header_exact), (env_replayed, Some header_exact)] =
     ([(200, premium_content cfg0 ''sig1'' 1000000),
       (402, JObj [(''error'', JStr ''Payment verification failed''),
                   (''details'', JStr ''failed to send transaction: Transaction simulation failed: This transaction has already been processed'')])],
      [SendRaw tx_bytes, Confirm ''sig1'', GetTx ''sig1'', SendRaw tx_bytes])
   \<and> submissions (snd (serve cfg0 [(env_paid, Some header_exact), (env_replayed, Some header_exact)]))
       = [tx_bytes, tx_bytes]"
  by (simp add: serve_def handler_paid handler_replayed)

text \<open>
  C2, amended. The server keeps no record of payments: over any sequence of requests, the
  transactions handed to \<^verbatim>\<open>sendRawTransaction\<close> are exactly, in order, one per request
  whose payment path reaches the submission, whatever was served before. A payload sent
  again is submitted again, and each caller gets the outcome of its own submission.
\<close>

theorem one_submission_per_paying_request:
  "submissions (snd (serve cfg reqs)) = List.map_filter (\<lambda>(env, hdr). tx_to_submit env hdr) reqs"
proof (induction reqs)
  case Nil
  show ?case by (simp add: serve_def List.map_filter_def)
next
  case (Cons r reqs)
  obtain env hdr where r: "r = (env, hdr)" by (cases r)
  have "submissions (snd (serve cfg (r # reqs))) =
          submissions (snd (premium_handler cfg env hdr)) @ submissions (snd (serve cfg reqs))"
    by (simp add: serve_def r submissions_append)
  also have "\<dots> = (case tx_to_submit env hdr of None \<Rightarrow> [] | Some b \<Rightarrow> [b])
                    @ List.map_filter (\<lambda>(env, hdr). tx_to_submit env hdr) reqs"
    by (simp add: handler_submissions Cons.IH)
  also have "\<dots> = List.map_filter (\<lambda>(env, hdr). tx_to_submit env hdr) (r # reqs)"
    by (simp add: r List.map_filter_def split: option.splits)
  finally show ?case .
qed

subsection \<open>Scheme and network are not consulted\<close>

lemma txBuffer_of_payload:
  "p \<noteq> JNull \<Longrightarrow> p' \<noteq> JNull \<Longrightarrow> get_prop p ''payload'' = get_prop p' ''payload''
   \<Longrightarrow> txBuffer_of env p = txBuffer_of env p'"
  by (cases p; cases p'; simp add: txBuffer_of_def)

lemma handler_upto_base:
  "premium_handler cfg0 env_paid (Some header_upto_base) =
     ((200, premium_content cfg0 ''sig1'' 1000000),
      [SendRaw tx_bytes, Confirm ''sig1'', GetTx ''sig1''])"
proof -
  have "confirmed_on_chain env_paid (Some header_upto_base) tx_bytes ''sig1'' ctx_paid"
    by (simp add: stage_defs example_defs)
  from handler_confirmed [OF this, of cfg0] show ?thesis
    by (simp add: verify_amount_def amountReceived_paid price0)
qed

text \<open>
  C3, as stated, fails. The quote accepts scheme \<^verbatim>\<open>exact\<close> on \<^verbatim>\<open>solana-devnet\<close> only; a
  proof under scheme \<^verbatim>\<open>upto\<close> and network \<^verbatim>\<open>base\<close> is submitted all the same and answered
  with 200 and the content.
\<close>

theorem unlisted_scheme_settled_counterexample:
  "JSON_parse env_paid (base64_utf8 env_paid header_upto_base) = Inr proof_upto_base
   \<and> get_prop proof_upto_base ''scheme'' = Some (JStr ''upto'')
   \<and> get_prop proof_upto_base ''network'' = Some (JStr ''base'')
   \<and> premium_handler cfg0 env_paid (Some header_upto_base) =
       ((200, premium_content cfg0 ''sig1'' 1000000),
        [SendRaw tx_bytes, Confirm ''sig1'', GetTx ''sig1''])"
  by (simp add: handler_upto_base) (simp add: example_defs)

text \<open>
  C3, amended. The handler has no accepted set to match against: it reads \<^verbatim>\<open>scheme\<close> and
  \<^verbatim>\<open>network\<close> for its log only. Two payment proofs with the same \<^verbatim>\<open>payload\<close> get the same
  response and cause the same RPC requests, whatever their \<^verbatim>\<open>scheme\<close>, \<^verbatim>\<open>network\<close> and
  other fields are.
\<close>

theorem scheme_and_network_not_consulted:
  assumes "h \<noteq> []" and "h' \<noteq> []"
    and "JSON_parse env (base64_utf8 env h) = Inr p"
    and "JSON_parse env (base64_utf8 env h') = Inr p'"
    and "p \<noteq> JNull" and "p' \<noteq> JNull"
    and "get_prop p ''payload'' = get_prop p' ''payload''"
  shows "premium_handler cfg env (Some h) = premium_handler cfg env (Some h')"
proof -
  have "txBuffer_of env p = txBuffer_of env p'"
    using assms(5-7) by (rule txBuffer_of_payload)
  then have "decode_and_deserialize env h = decode_and_deserialize env h'"
    using assms(3,4) by (simp add: decode_and_deserialize_def)
  then show ?thesis
    using assms(1,2) by (simp add: premium_handler_def with_payment_def)
qed

theorem scheme_and_network_not_consulted_witness:
  "header_exact \<noteq> [] \<and> header_upto_base \<noteq> []
   \<and> JSON_parse env_paid (base64_utf8 env_paid header_exact) = Inr proof_exact
   \<and> JSON_parse env_paid (base64_utf8 env_paid header_upto_base) = Inr proof_upto_base
   \<and> proof_exact \<noteq> JNull \<and> proof_upto_base \<noteq> JNull
   \<and> get_prop proof_exact ''payload'' = get_prop proof_upto_base ''payload''
   \<and> premium_handler cfg0 env_paid (Some header_exact)
       = premium_handler cfg0 env_paid (Some header_upto_base)"
proof -
  have 1: "header_exact \<noteq> []" and 2: "header_upto_base \<noteq> []"
    by (simp_all add: example_defs)
  have 3: "JSON_parse env_paid (base64_utf8 env_paid header_exact) = Inr proof_exact"
    and 4: "JSON_parse env_paid (base64_utf8 env_paid header_upto_base) = Inr proof_upto_base"
    by (simp_all add: example_defs)
  have 5: "proof_exact \<noteq> JNull" and 6: "proof_upto_base \<noteq> JNull"
    and 7: "get_prop proof_exact ''payload'' = get_prop proof_upto_base ''payload''"
    by (simp_all add: example_defs)
  from scheme_and_network_not_consulted [OF 1 2 3 4 5 6 7, of cfg0] 1 2 3 4 5 6 7
  show ?thesis by simp
qed

subsection \<open>What is checked before the submission\<close>

lemma amountReceived_elsewhere: "amountReceived_of cfg0 ctx_elsewhere = 0"
  by (simp add: amountReceived_of_def balances_or_empty_def example_defs)

lemma confirmed_other:
  "confirmed_on_chain env_paid (Some header_other) tx_other_bytes ''sig3'' ctx_elsewhere"
  by (simp add: stage_defs example_defs)

lemma handler_other:
  "premium_handler cfg0 env_paid (Some header_other) =
     ((402, JObj [(''error'', JStr ''Insufficient payment: received 0, expected 1000000'')]),
      [SendRaw tx_other_bytes, Confirm ''sig3'', GetTx ''sig3''])"
  using handler_confirmed [OF confirmed_other, of cfg0]
  by (simp add: verify_amount_def amountReceived_elsewhere price0 insufficient_payment_def
      String_of_int_def dec.simps digit_def)

text \<open>
  C4, as stated, fails. A transaction whose only instruction transfers the tokens to
  another account than the recipient's passes everything that precedes the submission and
  is handed to \<^verbatim>\<open>sendRawTransaction\<close>; only the balance check after confirmation rejects
  the request.
\<close>

theorem misdirected_transfer_submitted_counterexample:
  "RECIPIENT_TOKEN_ACCOUNT cfg0 = ''ServerUsdcAccount''
   \<and> Transaction_from env_paid tx_other_bytes
       = Some [Transfer ''PayerUsdcAccount'' ''OtherUsdcAccount'' ''Payer'' 1000000]
   \<and> decode_and_deserialize env_paid header_other = Inr tx_other_bytes
   \<and> premium_handler cfg0 env_paid (Some header_other) =
       ((402, JObj [(''error'', JStr ''Insufficient payment: received 0, expected 1000000'')]),
        [SendRaw tx_other_bytes, Confirm ''sig3'', GetTx ''sig3''])"
  by (simp add: handler_other) (simp add: stage_defs example_defs)

lemma txBuffer_of_deserializers:
  "txBuffer_of (env \<lparr> Transaction_from := a, VersionedTransaction_deserialize := b \<rparr>) p
     = txBuffer_of env p"
  by (simp add: txBuffer_of_def cong: json.case_cong option.case_cong)

text \<open>
  C4, amended. Before the submission the handler decodes the header and deserialises the
  transaction, and nothing else: this stage issues no RPC request; a payload it rejects
  causes none at all, a payload it accepts is submitted as the first RPC request; and its
  result does not depend on what the deserialised transaction contains (replacing the
  deserialised transactions by any others, \<open>f\<close> and \<open>g\<close>, changes nothing), so no
  instruction, recipient, asset or amount is checked at this stage.
\<close>

theorem deserialization_is_the_only_check_before_submission:
  "(h \<noteq> [] \<longrightarrow>
      (case decode_and_deserialize env h of
         Inl r \<Rightarrow> premium_handler cfg env (Some h) = (r, [])
       | Inr txBuffer \<Rightarrow> (\<exists>rest. snd (premium_handler cfg env (Some h)) = SendRaw txBuffer # rest)))
   \<and> decode_and_deserialize
        (env \<lparr> Transaction_from := map_option f \<circ> Transaction_from env,
               VersionedTransaction_deserialize := map_option g \<circ> VersionedTransaction_deserialize env \<rparr>) h
       = decode_and_deserialize env h"
proof (intro conjI impI)
  assume h: "h \<noteq> []"
  show "case decode_and_deserialize env h of
         Inl r \<Rightarrow> premium_handler cfg env (Some h) = (r, [])
       | Inr txBuffer \<Rightarrow> (\<exists>rest. snd (premium_handler cfg env (Some h)) = SendRaw txBuffer # rest)"
  proof (cases "decode_and_deserialize env h")
    case (Inl r)
    with h show ?thesis by (simp add: handler_rejected_before_submission)
  next
    case (Inr txBuffer)
    with h have "premium_handler cfg env (Some h) = submit_and_verify cfg env txBuffer"
      by (simp add: handler_submits)
    then show ?thesis
      using Inr by (auto simp: submit_and_verify_def split: sum.splits option.splits)
  qed
next
  show "decode_and_deserialize
        (env \<lparr> Transaction_from := map_option f \<circ> Transaction_from env,
               VersionedTransaction_deserialize := map_option g \<circ> VersionedTransaction_deserialize env \<rparr>) h
       = decode_and_deserialize env h"
    by (simp add: decode_and_deserialize_def txBuffer_of_deserializers transaction_of_def
        split: sum.splits option.splits)
qed

theorem deserialization_is_the_only_check_before_submission_witness:
  "header_exact \<noteq> []
   \<and> decode_and_deserialize env_paid header_exact = Inr tx_bytes
   \<and> (\<exists>rest. snd (premium_handler cfg0 env_paid (Some header_exact)) = SendRaw tx_bytes # rest)"
proof -
  have h: "header_exact \<noteq> []" by (simp add: header_exact_def)
  from deserialization_is_the_only_check_before_submission
         [where h = header_exact and env = env_paid and cfg = cfg0 and f = id and g = id] h
  show ?thesis by (simp add: decode_paid)
qed

subsection \<open>Underpayment\<close>

lemma amountReceived_underpaid: "amountReceived_of cfg0 ctx_underpaid = 500000"
  by (simp add: amountReceived_of_def balances_or_empty_def example_defs Number_exact
      minus_double_exact)

lemma confirmed_underpaid:
  "confirmed_on_chain env_paid (Some header_half) tx_half_bytes ''sig2'' ctx_underpaid"
  by (simp add: stage_defs example_defs)

lemma tx_to_submit_fetch_null:
  "tx_to_submit env_fetch_null (Some header_half) = Some tx_half_bytes"
  by (simp add: stage_defs example_defs)

lemma submit_and_verify_fetch_null:
  assumes "sendRawTransaction env b = Inr s" and "confirmTransaction env s = Inr err"
    and "\<not> truthy err" and "getTransaction env s = Inr None"
  shows "submit_and_verify cfg env b =
           ((402, JObj [(''error'', JStr ''Could not fetch transaction details'')]),
            [SendRaw b, Confirm s, GetTx s])"
  using assms by (simp add: submit_and_verify_def)

text \<open>
  C5, as stated, fails. The payload carries a transfer of 500000, half the price. No
  amount is checked before the submission: the transaction is submitted and confirmed.
  The node does not yet return the confirmed transaction, and the answer is the 402
  ``Could not fetch transaction details'', which does not name the insufficiency.
\<close>

theorem underpayment_answered_without_reason_counterexample:
  "Transaction_from env_fetch_null tx_half_bytes
     = Some [Transfer ''PayerUsdcAccount'' ''ServerUsdcAccount'' ''Payer'' 500000]
   \<and> PRICE_USDC cfg0 = 1000000
   \<and> decode_and_deserialize env_fetch_null header_half = Inr tx_half_bytes
   \<and> premium_handler cfg0 env_fetch_null (Some header_half) =
       ((402, JObj [(''error'', JStr ''Could not fetch transaction details'')]),
        [SendRaw tx_half_bytes, Confirm ''sig2'', GetTx ''sig2''])"
proof -
  have "premium_handler cfg0 env_fetch_null (Some header_half)
          = submit_and_verify cfg0 env_fetch_null tx_half_bytes"
    using tx_to_submit_fetch_null by (rule handler_of_tx_to_submit)
  also have "\<dots> = ((402, JObj [(''error'', JStr ''Could not fetch transaction details'')]),
                     [SendRaw tx_half_bytes, Confirm ''sig2'', GetTx ''sig2''])"
    by (rule submit_and_verify_fetch_null [where err = JNull]) (simp_all add: example_defs)
  finally show ?thesis
    by (simp add: price0) (simp add: stage_defs example_defs)
qed

text \<open>
  C5, amended. The amount is checked after the transaction has been submitted, confirmed
  and fetched, not before. For such a transaction, with distinct account keys, an entry
  for the recipient's token account and balances of that account below \<open>2^53\<close>: when the
  balance delta of the recipient's token account is strictly below the price, the answer
  is a 402 whose \<^verbatim>\<open>error\<close> names the insufficiency with the delta and the price, and the
  body carries no content. When the confirmed transaction cannot be fetched, the answer is
  the 402 ``Could not fetch transaction details'', whatever was paid.
\<close>

theorem underpayment_rejected_with_reason:
  "(confirmed_on_chain env hdr txBuffer signature confirmedTx
      \<and> distinct (staticAccountKeys confirmedTx) \<and> has_recipient_entry cfg confirmedTx
      \<and> recipient_balance_before cfg confirmedTx < 2 ^ 53
      \<and> recipient_balance_after cfg confirmedTx < 2 ^ 53
      \<and> recipient_balance_delta cfg confirmedTx < PRICE_USDC cfg
    \<longrightarrow> fst (premium_handler cfg env hdr) =
          (402, JObj [(''error'',
                       JStr (''Insufficient payment: received ''
                             @ String_of_int (recipient_balance_delta cfg confirmedTx)
                             @ '', expected '' @ String_of_int (PRICE_USDC cfg)))])
        \<and> get_prop (snd (fst (premium_handler cfg env hdr))) ''data'' = None)
   \<and> (tx_to_submit env hdr = Some txBuffer \<and> sendRawTransaction env txBuffer = Inr signature
      \<and> confirmTransaction env signature = Inr err \<and> \<not> truthy err
      \<and> getTransaction env signature = Inr None
    \<longrightarrow> premium_handler cfg env hdr =
          ((402, JObj [(''error'', JStr ''Could not fetch transaction details'')]),
           [SendRaw txBuffer, Confirm signature, GetTx signature]))"
proof (intro conjI)
  show "confirmed_on_chain env hdr txBuffer signature confirmedTx
      \<and> distinct (staticAccountKeys confirmedTx) \<and> has_recipient_entry cfg confirmedTx
      \<and> recipient_balance_before cfg confirmedTx < 2 ^ 53
      \<and> recipient_balance_after cfg confirmedTx < 2 ^ 53
      \<and> recipient_balance_delta cfg confirmedTx < PRICE_USDC cfg
    \<longrightarrow> fst (premium_handler cfg env hdr) =
          (402, JObj [(''error'',
                       JStr (''Insufficient payment: received ''
                             @ String_of_int (recipient_balance_delta cfg confirmedTx)
                             @ '', expected '' @ String_of_int (PRICE_USDC cfg)))])
        \<and> get_prop (snd (fst (premium_handler cfg env hdr))) ''data'' = None"
  proof
    assume a: "confirmed_on_chain env hdr txBuffer signature confirmedTx
      \<and> distinct (staticAccountKeys confirmedTx) \<and> has_recipient_entry cfg confirmedTx
      \<and> recipient_balance_before cfg confirmedTx < 2 ^ 53
      \<and> recipient_balance_after cfg confirmedTx < 2 ^ 53
      \<and> recipient_balance_delta cfg confirmedTx < PRICE_USDC cfg"
    then have amount: "amountReceived_of cfg confirmedTx = recipient_balance_delta cfg confirmedTx"
      by (simp add: amountReceived_of_exact)
    from a have "premium_handler cfg env hdr =
        (verify_amount cfg signature confirmedTx,
         [SendRaw txBuffer, Confirm signature, GetTx signature])"
      by (simp add: handler_confirmed)
    with a amount show "fst (premium_handler cfg env hdr) =
          (402, JObj [(''error'',
                       JStr (''Insufficient payment: received ''
                             @ String_of_int (recipient_balance_delta cfg confirmedTx)
                             @ '', expected '' @ String_of_int (PRICE_USDC cfg)))])
        \<and> get_prop (snd (fst (premium_handler cfg env hdr))) ''data'' = None"
      by (simp add: verify_amount_def insufficient_payment_def)
  qed
next
  show "tx_to_submit env hdr = Some txBuffer \<and> sendRawTransaction env txBuffer = Inr signature
      \<and> confirmTransaction env signature = Inr err \<and> \<not> truthy err
      \<and> getTransaction env signature = Inr None
    \<longrightarrow> premium_handler cfg env hdr =
          ((402, JObj [(''error'', JStr ''Could not fetch transaction details'')]),
           [SendRaw txBuffer, Confirm signature, GetTx signature])"
    by (auto simp: handler_of_tx_to_submit submit_and_verify_fetch_null)
qed

theorem underpayment_rejected_with_reason_witness:
  "confirmed_on_chain env_paid (Some header_half) tx_half_bytes ''sig2'' ctx_underpaid
   \<and> distinct (staticAccountKeys ctx_underpaid) \<and> has_recipient_entry cfg0 ctx_underpaid
   \<and> recipient_balance_before cfg0 ctx_underpaid = 3000000
   \<and> recipient_balance_after cfg0 ctx_underpaid = 3500000
   \<and> recipient_balance_delta cfg0 ctx_underpaid = 500000
   \<and> PRICE_USDC cfg0 = 1000000
   \<and> fst (premium_handler cfg0 env_paid (Some header_half)) =
       (402, JObj [(''error'', JStr ''Insufficient payment: received 500000, expected 1000000'')])
   \<and> premium_handler cfg0 env_fetch_null (Some header_half) =
       ((402, JObj [(''error'', JStr ''Could not fetch transaction details'')]),
        [SendRaw tx_half_bytes, Confirm ''sig2'', GetTx ''sig2''])"
proof -
  have d: "distinct (staticAccountKeys ctx_underpaid)"
    and e: "has_recipient_entry cfg0 ctx_underpaid"
    by (simp_all add: has_recipient_entry_def balances_or_empty_def example_defs)
  have before: "recipient_balance_before cfg0 ctx_underpaid = 3000000"
    and after: "recipient_balance_after cfg0 ctx_underpaid = 3500000"
    by (simp_all add: recipient_balance_before_def recipient_balance_after_def
        token_balance_of_def balances_or_empty_def example_defs)
  have delta: "recipient_balance_delta cfg0 ctx_underpaid = 500000"
    by (simp add: recipient_balance_delta_def before after)
  have s1: "String_of_int 500000 = ''500000''" and s2: "String_of_int 1000000 = ''1000000''"
    by (simp_all add: String_of_int_def dec.simps digit_def)
  have a: "fst (premium_handler cfg0 env_paid (Some header_half)) =
       (402, JObj [(''error'', JStr ''Insufficient payment: received 500000, expected 1000000'')])"
    using underpayment_rejected_with_reason
            [where env = env_paid and hdr = "Some header_half" and txBuffer = tx_half_bytes
               and signature = "''sig2''" and confirmedTx = ctx_underpaid and cfg = cfg0]
          confirmed_underpaid d e
    by (simp add: before after delta price0 s1 s2)
  have 1: "sendRawTransaction env_fetch_null tx_half_bytes = Inr ''sig2''"
    and 2: "confirmTransaction env_fetch_null ''sig2'' = Inr JNull"
    and 3: "getTransaction env_fetch_null ''sig2'' = Inr None"
    by (simp_all add: example_defs)
  have b: "premium_handler cfg0 env_fetch_null (Some header_half) =
       ((402, JObj [(''error'', JStr ''Could not fetch transaction details'')]),
        [SendRaw tx_half_bytes, Confirm ''sig2'', GetTx ''sig2''])"
    using underpayment_rejected_with_reason
            [where env = env_fetch_null and hdr = "Some header_half" and txBuffer = tx_half_bytes
               and signature = "''sig2''" and err = JNull and cfg = cfg0]
          tx_to_submit_fetch_null 1 2 3
    by simp
  from confirmed_underpaid d e before after delta price0 a b show ?thesis by simp
qed

subsection \<open>No balance entry for the recipient\<close>

lemma amountReceived_loop_no_entry:
  "\<not> list_ex (\<lambda>postBal. accountIndex postBal < length keys \<and> keys ! accountIndex postBal = r) posts
   \<Longrightarrow> amountReceived_loop r keys pres posts = 0"
  by (induction posts) auto

text \<open>
  C10. With a price above zero, a confirmed transaction whose post balances have no
  entry for the recipient's token account leaves the amount received at 0 and is answered
  with the 402 insufficient-payment error, not with the content.
\<close>

theorem no_recipient_entry_rejected:
  assumes "confirmed_on_chain env hdr txBuffer signature confirmedTx"
    and "0 < PRICE_USDC cfg"
    and "\<not> has_recipient_entry cfg confirmedTx"
  shows "amountReceived_of cfg confirmedTx = 0
         \<and> fst (premium_handler cfg env hdr) =
             (402, JObj [(''error'', JStr (insufficient_payment 0 (PRICE_USDC cfg)))])
         \<and> fst (fst (premium_handler cfg env hdr)) \<noteq> 200"
proof -
  have z: "amountReceived_of cfg confirmedTx = 0"
    using assms(3) by (simp add: has_recipient_entry_def amountReceived_of_def amountReceived_loop_no_entry)
  with handler_confirmed [OF assms(1), of cfg] assms(2) show ?thesis
    by (simp add: verify_amount_def)
qed

theorem no_recipient_entry_rejected_witness:
  "confirmed_on_chain env_paid (Some header_other) tx_other_bytes ''sig3'' ctx_elsewhere
   \<and> 0 < PRICE_USDC cfg0
   \<and> \<not> has_recipient_entry cfg0 ctx_elsewhere
   \<and> amountReceived_of cfg0 ctx_elsewhere = 0
   \<and> fst (premium_handler cfg0 env_paid (Some header_other)) =
       (402, JObj [(''error'', JStr ''Insufficient payment: received 0, expected 1000000'')])"
proof -
  note c = confirmed_other
  have p: "0 < PRICE_USDC cfg0" by (simp add: price0)
  have n: "\<not> has_recipient_entry cfg0 ctx_elsewhere"
    by (simp add: has_recipient_entry_def balances_or_empty_def example_defs)
  have s: "insufficient_payment 0 1000000 = ''Insufficient payment: received 0, expected 1000000''"
    by (simp add: insufficient_payment_def String_of_int_def dec.simps digit_def)
  from no_recipient_entry_rejected [OF c p n] c p n show ?thesis
    by (simp add: price0 s)
qed

subsection \<open>Legacy, then versioned deserialisation\<close>

lemma submit_and_verify_not_invalid_format:
  "fst (submit_and_verify cfg env txBuffer) \<noteq> (402, JObj [(''error'', JStr ''Invalid transaction format'')])"
  by (auto simp: submit_and_verify_def catch_response_def verify_amount_def Let_def
        insufficient_payment_def
      split: sum.splits option.splits)

lemma invalid_format_iff:
  "fst (premium_handler cfg env hdr) = (402, JObj [(''error'', JStr ''Invalid transaction format'')])
   \<longleftrightarrow> (\<exists>h p txBuffer. hdr = Some h \<and> h \<noteq> []
          \<and> JSON_parse env (base64_utf8 env h) = Inr p \<and> txBuffer_of env p = Inr txBuffer
          \<and> Transaction_from env txBuffer = None
          \<and> VersionedTransaction_deserialize env txBuffer = None)"
proof (cases hdr)
  case None
  then show ?thesis by (simp add: premium_handler_def payment_quote_def)
next
  case (Some h)
  show ?thesis
  proof (cases "h = []")
    case True
    with Some show ?thesis by (simp add: premium_handler_def payment_quote_def)
  next
    case False
    with Some show ?thesis
      using submit_and_verify_not_invalid_format [of cfg env]
      by (auto simp: premium_handler_def with_payment_def decode_and_deserialize_def
            transaction_of_def catch_response_def
          split: sum.splits option.splits)
  qed
qed

text \<open>
  C9. The legacy deserialisation is tried first and its result kept when it succeeds; the
  versioned one is consulted only when the legacy one throws. The response is the 402
  ``Invalid transaction format'' exactly when the payment path reaches the transaction
  bytes and both deserialisations throw; when either succeeds the handler goes on to the
  submission.
\<close>

theorem legacy_then_versioned:
  "(Transaction_from env txBuffer = Some t \<longrightarrow> transaction_of env txBuffer = Some (Legacy t))
   \<and> (Transaction_from env txBuffer = None \<longrightarrow>
        transaction_of env txBuffer = map_option Versioned (VersionedTransaction_deserialize env txBuffer))
   \<and> (fst (premium_handler cfg env hdr) = (402, JObj [(''error'', JStr ''Invalid transaction format'')])
       \<longleftrightarrow> (\<exists>h' p' b'. hdr = Some h' \<and> h' \<noteq> []
              \<and> JSON_parse env (base64_utf8 env h') = Inr p' \<and> txBuffer_of env p' = Inr b'
              \<and> Transaction_from env b' = None
              \<and> VersionedTransaction_deserialize env b' = None))
   \<and> (h \<noteq> [] \<and> JSON_parse env (base64_utf8 env h) = Inr p \<and> txBuffer_of env p = Inr txBuffer
        \<and> (Transaction_from env txBuffer \<noteq> None \<or> VersionedTransaction_deserialize env txBuffer \<noteq> None)
       \<longrightarrow> premium_handler cfg env (Some h) = submit_and_verify cfg env txBuffer)"
proof (intro conjI impI)
  assume "Transaction_from env txBuffer = Some t"
  then show "transaction_of env txBuffer = Some (Legacy t)"
    by (simp add: transaction_of_def)
next
  assume "Transaction_from env txBuffer = None"
  then show "transaction_of env txBuffer = map_option Versioned (VersionedTransaction_deserialize env txBuffer)"
    by (simp add: transaction_of_def split: option.splits)
next
  show "fst (premium_handler cfg env hdr) = (402, JObj [(''error'', JStr ''Invalid transaction format'')])
       \<longleftrightarrow> (\<exists>h' p' b'. hdr = Some h' \<and> h' \<noteq> []
              \<and> JSON_parse env (base64_utf8 env h') = Inr p' \<and> txBuffer_of env p' = Inr b'
              \<and> Transaction_from env b' = None
              \<and> VersionedTransaction_deserialize env b' = None)"
    by (rule invalid_format_iff)
next
  assume a: "h \<noteq> [] \<and> JSON_parse env (base64_utf8 env h) = Inr p \<and> txBuffer_of env p = Inr txBuffer
        \<and> (Transaction_from env txBuffer \<noteq> None \<or> VersionedTransaction_deserialize env txBuffer \<noteq> None)"
  then have "decode_and_deserialize env h = Inr txBuffer"
    by (auto simp: decode_and_deserialize_def transaction_of_def split: option.splits)
  with a show "premium_handler cfg env (Some h) = submit_and_verify cfg env txBuffer"
    by (simp add: handler_submits)
qed

theorem legacy_then_versioned_witness:
  "transaction_of env_paid tx_bytes
     = Some (Legacy [Transfer ''PayerUsdcAccount'' ''ServerUsdcAccount'' ''Payer'' 1000000])
   \<and> transaction_of env_paid tx_v0_bytes
     = Some (Versioned [Transfer ''PayerUsdcAccount'' ''ServerUsdcAccount'' ''Payer'' 1000000])
   \<and> fst (premium_handler cfg0 env_paid (Some header_garbage))
     = (402, JObj [(''error'', JStr ''Invalid transaction format'')])
   \<and> premium_handler cfg0 env_paid (Some header_v0)
     = submit_and_verify cfg0 env_paid tx_v0_bytes"
proof -
  let ?t = "[Transfer ''PayerUsdcAccount'' ''ServerUsdcAccount'' ''Payer'' 1000000]"
  have 1: "Transaction_from env_paid tx_bytes = Some ?t"
    by (simp add: example_defs)
  have 2: "Transaction_from env_paid tx_v0_bytes = None"
    and 3: "VersionedTransaction_deserialize env_paid tx_v0_bytes = Some ?t"
    by (simp_all add: example_defs)
  have 4: "header_garbage \<noteq> []"
    and 5: "JSON_parse env_paid (base64_utf8 env_paid header_garbage) = Inr proof_garbage"
    and 6: "txBuffer_of env_paid proof_garbage = Inr tx_garbage_bytes"
    and 7: "Transaction_from env_paid tx_garbage_bytes = None"
    and 8: "VersionedTransaction_deserialize env_paid tx_garbage_bytes = None"
    by (simp_all add: txBuffer_of_def example_defs)
  have 9: "header_v0 \<noteq> []"
    and 10: "JSON_parse env_paid (base64_utf8 env_paid header_v0) = Inr proof_v0"
    and 11: "txBuffer_of env_paid proof_v0 = Inr tx_v0_bytes"
    by (simp_all add: txBuffer_of_def example_defs)
  have a: "transaction_of env_paid tx_bytes = Some (Legacy ?t)"
    using legacy_then_versioned [where env = env_paid and txBuffer = tx_bytes and t = ?t] 1
    by simp
  have b: "transaction_of env_paid tx_v0_bytes = Some (Versioned ?t)"
    using legacy_then_versioned [where env = env_paid and txBuffer = tx_v0_bytes] 2 3
    by simp
  have c: "fst (premium_handler cfg0 env_paid (Some header_garbage))
     = (402, JObj [(''error'', JStr ''Invalid transaction format'')])"
    using legacy_then_versioned [where env = env_paid and cfg = cfg0 and hdr = "Some header_garbage"]
      4 5 6 7 8
    by simp
  have d: "premium_handler cfg0 env_paid (Some header_v0)
     = submit_and_verify cfg0 env_paid tx_v0_bytes"
    using legacy_then_versioned [where env = env_paid and cfg = cfg0 and h = header_v0
        and p = proof_v0 and txBuffer = tx_v0_bytes] 9 10 11 3
    by simp
  from a b c d show ?thesis by simp
qed

subsection \<open>Decoding the header\<close>

lemma handler_v99:
  "premium_handler cfg0 env_paid (Some header_v99) =
     ((200, premium_content cfg0 ''sig1'' 1000000),
      [SendRaw tx_bytes, Confirm ''sig1'', GetTx ''sig1''])"
proof -
  have "confirmed_on_chain env_paid (Some header_v99) tx_bytes ''sig1'' ctx_paid"
    by (simp add: stage_defs example_defs)
  from handler_confirmed [OF this, of cfg0] show ?thesis
    by (simp add: verify_amount_def amountReceived_paid price0)
qed

lemma handler_decode_throws:
  assumes "h \<noteq> []"
  shows "JSON_parse env (base64_utf8 env h) = Inl e
         \<Longrightarrow> premium_handler cfg env (Some h) = (catch_response e, [])"
    and "JSON_parse env (base64_utf8 env h) = Inr p \<Longrightarrow> txBuffer_of env p = Inl e
         \<Longrightarrow> premium_handler cfg env (Some h) = (catch_response e, [])"
  using assms by (simp_all add: premium_handler_def with_payment_def decode_and_deserialize_def)

text \<open>
  C6, as stated, fails. A proof with \<^verbatim>\<open>x402Version\<close> 99 and empty \<^verbatim>\<open>scheme\<close> and \<^verbatim>\<open>network\<close>
  is decoded without error, its transaction is submitted and the content is released.
\<close>

theorem unvalidated_version_scheme_network_counterexample:
  "JSON_parse env_paid (base64_utf8 env_paid header_v99) = Inr proof_v99
   \<and> get_prop proof_v99 ''x402Version'' = Some (JNum 99)
   \<and> get_prop proof_v99 ''scheme'' = Some (JStr [])
   \<and> get_prop proof_v99 ''network'' = Some (JStr [])
   \<and> decode_and_deserialize env_paid header_v99 = Inr tx_bytes
   \<and> premium_handler cfg0 env_paid (Some header_v99) =
       ((200, premium_content cfg0 ''sig1'' 1000000),
        [SendRaw tx_bytes, Confirm ''sig1'', GetTx ''sig1''])"
  by (simp add: handler_v99) (simp add: stage_defs example_defs)

text \<open>
  C6, amended. Decoding the header is: base64 to text, \<^verbatim>\<open>JSON.parse\<close>, the read of
  \<^verbatim>\<open>payload.serializedTransaction\<close>, base64 to bytes. When \<^verbatim>\<open>JSON.parse\<close> throws, or the
  read or the conversion throws (a \<^verbatim>\<open>null\<close> proof, a missing or \<^verbatim>\<open>null\<close> payload, a value
  that cannot be turned into a buffer), and in no other case, the answer is the 402
  ``Payment verification failed'' with the thrown message, and no RPC request is made. \<^verbatim>\<open>x402Version\<close>, \<^verbatim>\<open>scheme\<close> and
  \<^verbatim>\<open>network\<close> are not validated: the decoded bytes depend on the \<^verbatim>\<open>payload\<close> alone.
\<close>

theorem header_decoding_failures:
  "(h \<noteq> [] \<and> JSON_parse env (base64_utf8 env h) = Inl e
      \<longrightarrow> premium_handler cfg env (Some h) = (catch_response e, []))
   \<and> (h \<noteq> [] \<and> JSON_parse env (base64_utf8 env h) = Inr p \<and> txBuffer_of env p = Inl e
      \<longrightarrow> premium_handler cfg env (Some h) = (catch_response e, []))
   \<and> ((\<exists>e'. txBuffer_of env p = Inl e') \<longleftrightarrow>
        p = JNull \<or> get_prop p ''payload'' = None \<or> get_prop p ''payload'' = Some JNull
        \<or> (\<exists>payload e'. get_prop p ''payload'' = Some payload
              \<and> Buffer_from env (get_prop payload ''serializedTransaction'') = Inl e'))
   \<and> (p \<noteq> JNull \<and> p' \<noteq> JNull \<and> get_prop p ''payload'' = get_prop p' ''payload''
      \<longrightarrow> txBuffer_of env p = txBuffer_of env p')"
proof (intro conjI)
  show "h \<noteq> [] \<and> JSON_parse env (base64_utf8 env h) = Inl e
      \<longrightarrow> premium_handler cfg env (Some h) = (catch_response e, [])"
    by (simp add: handler_decode_throws)
next
  show "h \<noteq> [] \<and> JSON_parse env (base64_utf8 env h) = Inr p \<and> txBuffer_of env p = Inl e
      \<longrightarrow> premium_handler cfg env (Some h) = (catch_response e, [])"
    by (simp add: handler_decode_throws)
next
  show "(\<exists>e'. txBuffer_of env p = Inl e') \<longleftrightarrow>
        p = JNull \<or> get_prop p ''payload'' = None \<or> get_prop p ''payload'' = Some JNull
        \<or> (\<exists>payload e'. get_prop p ''payload'' = Some payload
              \<and> Buffer_from env (get_prop payload ''serializedTransaction'') = Inl e')"
  proof (cases "p = JNull")
    case True
    then show ?thesis by (simp add: txBuffer_of_def)
  next
    case False
    then have unfold: "txBuffer_of env p =
        (case get_prop p ''payload'' of
           None \<Rightarrow> Inl (cannot_read ''undefined'' ''serializedTransaction'')
         | Some JNull \<Rightarrow> Inl (cannot_read ''null'' ''serializedTransaction'')
         | Some payload \<Rightarrow> Buffer_from env (get_prop payload ''serializedTransaction''))"
      by (cases p) (simp_all add: txBuffer_of_def)
    show ?thesis
    proof (cases "get_prop p ''payload''")
      case None
      with unfold show ?thesis by simp
    next
      case (Some payload)
      with unfold False show ?thesis by (cases payload) auto
    qed
  qed
next
  show "p \<noteq> JNull \<and> p' \<noteq> JNull \<and> get_prop p ''payload'' = get_prop p' ''payload''
      \<longrightarrow> txBuffer_of env p = txBuffer_of env p'"
    by (auto intro: txBuffer_of_payload)
qed

theorem header_decoding_failures_witness:
  "premium_handler cfg0 env_paid (Some header_truncated) =
     (catch_response (Error ''Unexpected end of JSON input''), [])
   \<and> premium_handler cfg0 env_paid (Some header_no_payload) =
     (catch_response (cannot_read ''undefined'' ''serializedTransaction''), [])
   \<and> txBuffer_of env_paid proof_exact = txBuffer_of env_paid proof_v99"
proof -
  have 1: "header_truncated \<noteq> []"
    and 2: "JSON_parse env_paid (base64_utf8 env_paid header_truncated)
              = Inl (Error ''Unexpected end of JSON input'')"
    by (simp_all add: example_defs)
  have 3: "header_no_payload \<noteq> []"
    and 4: "JSON_parse env_paid (base64_utf8 env_paid header_no_payload) = Inr proof_no_payload"
    and 5: "txBuffer_of env_paid proof_no_payload
              = Inl (cannot_read ''undefined'' ''serializedTransaction'')"
    by (simp_all add: txBuffer_of_def example_defs)
  have 6: "proof_exact \<noteq> JNull" and 7: "proof_v99 \<noteq> JNull"
    and 8: "get_prop proof_exact ''payload'' = get_prop proof_v99 ''payload''"
    by (simp_all add: example_defs)
  have a: "premium_handler cfg0 env_paid (Some header_truncated) =
     (catch_response (Error ''Unexpected end of JSON input''), [])"
    using header_decoding_failures
      [where h = header_truncated and env = env_paid and cfg = cfg0
         and e = "Error ''Unexpected end of JSON input''"] 1 2
    by simp
  have b: "premium_handler cfg0 env_paid (Some header_no_payload) =
     (catch_response (cannot_read ''undefined'' ''serializedTransaction''), [])"
    using header_decoding_failures
      [where h = header_no_payload and env = env_paid and cfg = cfg0 and p = proof_no_payload
         and e = "cannot_read ''undefined'' ''serializedTransaction''"] 3 4 5
    by simp
  have c: "txBuffer_of env_paid proof_exact = txBuffer_of env_paid proof_v99"
    using header_decoding_failures [where env = env_paid and p = proof_exact and p' = proof_v99] 6 7 8
    by simp
  from a b c show ?thesis by simp
qed

subsection \<open>Thrown faults\<close>

lemma submit_and_verify_throws:
  "sendRawTransaction env b = Inl e
   \<Longrightarrow> submit_and_verify cfg env b = (catch_response e, [SendRaw b])"
  "sendRawTransaction env b = Inr s \<Longrightarrow> confirmTransaction env s = Inl e
   \<Longrightarrow> submit_and_verify cfg env b = (catch_response e, [SendRaw b, Confirm s])"
  "sendRawTransaction env b = Inr s \<Longrightarrow> confirmTransaction env s = Inr err \<Longrightarrow> \<not> truthy err
   \<Longrightarrow> getTransaction env s = Inl e
   \<Longrightarrow> submit_and_verify cfg env b = (catch_response e, [SendRaw b, Confirm s, GetTx s])"
  by (simp_all add: submit_and_verify_def)

lemma submit_and_verify_status:
  "fst (fst (submit_and_verify cfg env b)) = 200 \<or> fst (fst (submit_and_verify cfg env b)) = 402"
  by (auto simp: submit_and_verify_def catch_response_def verify_amount_def Let_def
      split: sum.splits option.splits)

lemma handler_status:
  "fst (fst (premium_handler cfg env hdr)) = 200 \<or> fst (fst (premium_handler cfg env hdr)) = 402"
proof (cases "tx_to_submit env hdr")
  case None
  then show ?thesis
    by (auto simp: tx_to_submit_def premium_handler_def with_payment_def
          decode_and_deserialize_def catch_response_def
        split: option.splits sum.splits if_splits)
next
  case (Some b)
  then show ?thesis
    using submit_and_verify_status [of cfg env b] by (simp add: handler_of_tx_to_submit)
qed

lemma handler_truncated:
  "premium_handler cfg0 env_paid (Some header_truncated) =
     ((402, JObj [(''error'', JStr ''Payment verification failed''),
                  (''details'', JStr ''Unexpected end of JSON input'')]), [])"
  by (simp add: premium_handler_def with_payment_def decode_and_deserialize_def
      catch_response_def example_defs)

lemma tx_to_submit_unreachable: "tx_to_submit env_unreachable (Some header_exact) = Some tx_bytes"
  by (simp add: stage_defs example_defs)

lemma handler_unreachable:
  "premium_handler cfg0 env_unreachable (Some header_exact) =
     ((402, JObj [(''error'', JStr ''Payment verification failed''),
                  (''details'', JStr ''fetch failed'')]), [SendRaw tx_bytes])"
  using handler_of_tx_to_submit [OF tx_to_submit_unreachable, of cfg0]
  by (simp add: submit_and_verify_def catch_response_def env_unreachable_def)

text \<open>
  C7, as stated, fails in its second half. A header that is not JSON (a validation
  failure) and an RPC node that cannot be reached (a transport fault, outcome unknown)
  are answered alike: status 402, the same \<^verbatim>\<open>error\<close>, and the thrown message as
  \<^verbatim>\<open>details\<close>.
\<close>

theorem transport_fault_answered_as_rejection_counterexample:
  "fst (premium_handler cfg0 env_paid (Some header_truncated)) =
     (402, JObj [(''error'', JStr ''Payment verification failed''),
                 (''details'', JStr ''Unexpected end of JSON input'')])
   \<and> fst (premium_handler cfg0 env_unreachable (Some header_exact)) =
     (402, JObj [(''error'', JStr ''Payment verification failed''),
                 (''details'', JStr ''fetch failed'')])"
  by (simp add: handler_truncated handler_unreachable)

text \<open>
  C7, amended. No failure leaves the handler as an exception or a 500: every response has
  status 200 or 402. A value thrown on the payment path is answered by the one
  \<^verbatim>\<open>catch\<close> block, whichever call threw it: \<^verbatim>\<open>JSON.parse\<close> on a malformed header, or
  \<^verbatim>\<open>sendRawTransaction\<close>, \<^verbatim>\<open>confirmTransaction\<close> or \<^verbatim>\<open>getTransaction\<close> on an unreachable or
  timed-out RPC node. The answer is a 402 with \<^verbatim>\<open>error\<close> ``Payment verification failed''
  and the thrown message as \<^verbatim>\<open>details\<close>; a transport fault is told from a validation
  failure by nothing but that message.
\<close>

theorem thrown_faults_share_one_response:
  "(fst (fst (premium_handler cfg env hdr)) = 200 \<or> fst (fst (premium_handler cfg env hdr)) = 402)
   \<and> (hdr = Some h \<and> h \<noteq> [] \<and> JSON_parse env (base64_utf8 env h) = Inl e
      \<longrightarrow> premium_handler cfg env hdr = (catch_response e, []))
   \<and> (tx_to_submit env hdr = Some b \<and> sendRawTransaction env b = Inl e
      \<longrightarrow> premium_handler cfg env hdr = (catch_response e, [SendRaw b]))
   \<and> (tx_to_submit env hdr = Some b \<and> sendRawTransaction env b = Inr s
        \<and> confirmTransaction env s = Inl e
      \<longrightarrow> premium_handler cfg env hdr = (catch_response e, [SendRaw b, Confirm s]))
   \<and> (tx_to_submit env hdr = Some b \<and> sendRawTransaction env b = Inr s
        \<and> confirmTransaction env s = Inr err \<and> \<not> truthy err \<and> getTransaction env s = Inl e
      \<longrightarrow> premium_handler cfg env hdr = (catch_response e, [SendRaw b, Confirm s, GetTx s]))
   \<and> fst (catch_response e) = 402
   \<and> get_prop (snd (catch_response e)) ''error'' = Some (JStr ''Payment verification failed'')"
  using handler_status [of cfg env hdr]
  by (auto simp: handler_decode_throws handler_of_tx_to_submit submit_and_verify_throws
        catch_response_def)

theorem thrown_faults_share_one_response_witness:
  "premium_handler cfg0 env_paid (Some header_truncated)
     = (catch_response (Error ''Unexpected end of JSON input''), [])
   \<and> premium_handler cfg0 env_unreachable (Some header_exact)
     = (catch_response (Error ''fetch failed''), [SendRaw tx_bytes])
   \<and> premium_handler cfg0 env_confirm_timeout (Some header_exact)
     = (catch_response (Error ''Transaction was not confirmed in 30.00 seconds. It is unknown if it succeeded or failed. Check signature sig1 using the Solana Explorer or CLI tools.''),
        [SendRaw tx_bytes, Confirm ''sig1''])
   \<and> premium_handler cfg0 env_fetch_unreachable (Some header_exact)
     = (catch_response (Error ''fetch failed''), [SendRaw tx_bytes, Confirm ''sig1'', GetTx ''sig1''])"
proof -
  have 1: "header_truncated \<noteq> []"
    and 2: "JSON_parse env_paid (base64_utf8 env_paid header_truncated)
              = Inl (Error ''Unexpected end of JSON input'')"
    by (simp_all add: example_defs)
  have a: "premium_handler cfg0 env_paid (Some header_truncated)
     = (catch_response (Error ''Unexpected end of JSON input''), [])"
    using thrown_faults_share_one_response
      [where cfg = cfg0 and env = env_paid and hdr = "Some header_truncated"
         and h = header_truncated and e = "Error ''Unexpected end of JSON input''"] 1 2
    by simp
  have 3: "sendRawTransaction env_unreachable tx_bytes = Inl (Error ''fetch failed'')"
    by (simp add: example_defs)
  have b: "premium_handler cfg0 env_unreachable (Some header_exact)
     = (catch_response (Error ''fetch failed''), [SendRaw tx_bytes])"
    using thrown_faults_share_one_response
      [where cfg = cfg0 and env = env_unreachable and hdr = "Some header_exact"
         and b = tx_bytes and e = "Error ''fetch failed''"] tx_to_submit_unreachable 3
    by simp
  let ?m = "''Transaction was not confirmed in 30.00 seconds. It is unknown if it succeeded or failed. Check signature sig1 using the Solana Explorer or CLI tools.''"
  have 4: "tx_to_submit env_confirm_timeout (Some header_exact) = Some tx_bytes"
    and 5: "sendRawTransaction env_confirm_timeout tx_bytes = Inr ''sig1''"
    and 6: "confirmTransaction env_confirm_timeout ''sig1'' = Inl (Error ?m)"
    by (simp_all add: stage_defs example_defs)
  have c: "premium_handler cfg0 env_confirm_timeout (Some header_exact)
     = (catch_response (Error ?m), [SendRaw tx_bytes, Confirm ''sig1''])"
    using thrown_faults_share_one_response
      [where cfg = cfg0 and env = env_confirm_timeout and hdr = "Some header_exact"
         and b = tx_bytes and s = "''sig1''" and e = "Error ?m"] 4 5 6
    by simp
  have 7: "tx_to_submit env_fetch_unreachable (Some header_exact) = Some tx_bytes"
    and 8: "sendRawTransaction env_fetch_unreachable tx_bytes = Inr ''sig1''"
    and 9: "confirmTransaction env_fetch_unreachable ''sig1'' = Inr JNull"
    and 10: "getTransaction env_fetch_unreachable ''sig1'' = Inl (Error ''fetch failed'')"
    by (simp_all add: stage_defs example_defs)
  have d: "premium_handler cfg0 env_fetch_unreachable (Some header_exact)
     = (catch_response (Error ''fetch failed''), [SendRaw tx_bytes, Confirm ''sig1'', GetTx ''sig1''])"
    using thrown_faults_share_one_response
      [where cfg = cfg0 and env = env_fetch_unreachable and hdr = "Some header_exact"
         and b = tx_bytes and s = "''sig1''" and err = JNull and e = "Error ''fetch failed''"]
      7 8 9 10
    by simp
  from a b c d show ?thesis by simp
qed

subsection \<open>The bodies of the 402 responses\<close>

lemma rejected_before_submission_shape:
  assumes "decode_and_deserialize env h = Inl r"
  shows "(keys_of (snd r) = [''error''] \<or> keys_of (snd r) = [''error'', ''details''])
         \<and> (\<exists>s. get_prop (snd r) ''error'' = Some (JStr s))"
  using assms
  by (auto simp: decode_and_deserialize_def catch_response_def split: sum.splits option.splits)

lemma submit_and_verify_402_shape:
  assumes "fst (fst (submit_and_verify cfg env b)) = 402"
  shows "(keys_of (snd (fst (submit_and_verify cfg env b))) = [''error'']
          \<or> keys_of (snd (fst (submit_and_verify cfg env b))) = [''error'', ''details''])
         \<and> (\<exists>s. get_prop (snd (fst (submit_and_verify cfg env b))) ''error'' = Some (JStr s))"
  using assms
  by (auto simp: submit_and_verify_def catch_response_def verify_amount_def Let_def
      split: sum.splits option.splits if_splits)

text \<open>
  C8, as stated, fails. The 402 sent without a payment header has the keys
  \<^verbatim>\<open>x402Version\<close> and \<^verbatim>\<open>accepts\<close> and no \<^verbatim>\<open>error\<close>, and its \<^verbatim>\<open>accepts\<close> element has none
  of \<^verbatim>\<open>maxAmountRequired\<close>, \<^verbatim>\<open>payTo\<close>, \<^verbatim>\<open>asset\<close>, \<^verbatim>\<open>maxTimeoutSeconds\<close>, \<^verbatim>\<open>extra\<close>; the 402
  sent for a header that is not JSON has the keys \<^verbatim>\<open>error\<close> and \<^verbatim>\<open>details\<close> only.
\<close>

theorem quote_body_shape_counterexample:
  "premium_handler cfg0 env_paid None =
     ((402, JObj [(''x402Version'', JNum 1),
                  (''accepts'',
                   JArr [JObj [(''scheme'', JStr ''exact''),
                               (''network'', JStr ''solana-devnet''),
                               (''recipientWallet'', JStr ''ServerWallet''),
                               (''tokenAccount'', JStr ''ServerUsdcAccount''),
                               (''mint'', JStr ''Gh9ZwEmdLJ8DscKNTkTqPbNwLNNBjuSzaG9Vp2KGtKJr''),
                               (''amount'', JNum 1000000),
                               (''amountUSDC'', JNum 1),
                               (''resource'', JStr ''/premium''),
                               (''description'', JStr ''Premium content access''),
                               (''mimeType'', JStr ''application/json'')]])]), [])
   \<and> keys_of (snd (fst (premium_handler cfg0 env_paid None))) = [''x402Version'', ''accepts'']
   \<and> keys_of (snd (fst (premium_handler cfg0 env_paid (Some header_truncated))))
       = [''error'', ''details'']"
  by (simp add: handler_truncated) (simp add: premium_handler_def payment_quote_def cfg0_def)

text \<open>
  C8, amended. A request without a payment header (none, or an empty one) gets the 402
  quote, whose body has exactly the keys \<^verbatim>\<open>x402Version\<close> (the number 1) and \<^verbatim>\<open>accepts\<close>, a
  list of one object with the keys \<^verbatim>\<open>scheme\<close>, \<^verbatim>\<open>network\<close>, \<^verbatim>\<open>recipientWallet\<close>,
  \<^verbatim>\<open>tokenAccount\<close>, \<^verbatim>\<open>mint\<close>, \<^verbatim>\<open>amount\<close>, \<^verbatim>\<open>amountUSDC\<close>, \<^verbatim>\<open>resource\<close>, \<^verbatim>\<open>description\<close> and
  \<^verbatim>\<open>mimeType\<close>. Every 402 sent for a request with a payment header has a body with the keys
  \<^verbatim>\<open>error\<close>, a string, and possibly \<^verbatim>\<open>details\<close>, and nothing else.
\<close>

theorem shapes_of_402_bodies:
  "(hdr = None \<or> hdr = Some [] \<longrightarrow> premium_handler cfg env hdr = ((402, payment_quote cfg), []))
   \<and> keys_of (payment_quote cfg) = [''x402Version'', ''accepts'']
   \<and> get_prop (payment_quote cfg) ''x402Version'' = Some (JNum 1)
   \<and> (\<exists>a. get_prop (payment_quote cfg) ''accepts'' = Some (JArr [a])
          \<and> keys_of a = [''scheme'', ''network'', ''recipientWallet'', ''tokenAccount'', ''mint'',
                          ''amount'', ''amountUSDC'', ''resource'', ''description'', ''mimeType''])
   \<and> (hdr = Some h \<and> h \<noteq> [] \<and> fst (fst (premium_handler cfg env hdr)) = 402 \<longrightarrow>
        (keys_of (snd (fst (premium_handler cfg env hdr))) = [''error'']
         \<or> keys_of (snd (fst (premium_handler cfg env hdr))) = [''error'', ''details''])
        \<and> (\<exists>s. get_prop (snd (fst (premium_handler cfg env hdr))) ''error'' = Some (JStr s)))"
proof (intro conjI)
  show "hdr = None \<or> hdr = Some [] \<longrightarrow> premium_handler cfg env hdr = ((402, payment_quote cfg), [])"
    by (simp add: handler_without_header)
next
  show "keys_of (payment_quote cfg) = [''x402Version'', ''accepts'']"
    by (simp add: payment_quote_def)
next
  show "get_prop (payment_quote cfg) ''x402Version'' = Some (JNum 1)"
    by (simp add: payment_quote_def)
next
  show "\<exists>a. get_prop (payment_quote cfg) ''accepts'' = Some (JArr [a])
          \<and> keys_of a = [''scheme'', ''network'', ''recipientWallet'', ''tokenAccount'', ''mint'',
                          ''amount'', ''amountUSDC'', ''resource'', ''description'', ''mimeType'']"
    by (simp add: payment_quote_def)
next
  show "hdr = Some h \<and> h \<noteq> [] \<and> fst (fst (premium_handler cfg env hdr)) = 402 \<longrightarrow>
        (keys_of (snd (fst (premium_handler cfg env hdr))) = [''error'']
         \<or> keys_of (snd (fst (premium_handler cfg env hdr))) = [''error'', ''details''])
        \<and> (\<exists>s. get_prop (snd (fst (premium_handler cfg env hdr))) ''error'' = Some (JStr s))"
  proof
    assume a: "hdr = Some h \<and> h \<noteq> [] \<and> fst (fst (premium_handler cfg env hdr)) = 402"
    show "(keys_of (snd (fst (premium_handler cfg env hdr))) = [''error'']
           \<or> keys_of (snd (fst (premium_handler cfg env hdr))) = [''error'', ''details''])
          \<and> (\<exists>s. get_prop (snd (fst (premium_handler cfg env hdr))) ''error'' = Some (JStr s))"
    proof (cases "decode_and_deserialize env h")
      case (Inl r)
      with a have "premium_handler cfg env hdr = (r, [])"
        by (simp add: handler_rejected_before_submission)
      with rejected_before_submission_shape [OF Inl] show ?thesis by simp
    next
      case (Inr b)
      with a have "premium_handler cfg env hdr = submit_and_verify cfg env b"
        by (simp add: handler_submits)
      with a submit_and_verify_402_shape [of cfg env b] show ?thesis by simp
    qed
  qed
qed

theorem shapes_of_402_bodies_witness:
  "premium_handler cfg0 env_paid None = ((402, payment_quote cfg0), [])
   \<and> fst (fst (premium_handler cfg0 env_paid (Some header_truncated))) = 402
   \<and> keys_of (snd (fst (premium_handler cfg0 env_paid (Some header_truncated))))
       = [''error'', ''details'']"
proof -
  have a: "premium_handler cfg0 env_paid None = ((402, payment_quote cfg0), [])"
    using shapes_of_402_bodies [where hdr = None and cfg = cfg0 and env = env_paid] by simp
  have 1: "header_truncated \<noteq> []" by (simp add: header_truncated_def)
  have 2: "fst (fst (premium_handler cfg0 env_paid (Some header_truncated))) = 402"
    by (simp add: handler_truncated)
  from shapes_of_402_bodies
         [where hdr = "Some header_truncated" and h = header_truncated and cfg = cfg0
            and env = env_paid] 1 2
  have "keys_of (snd (fst (premium_handler cfg0 env_paid (Some header_truncated)))) = [''error'']
        \<or> keys_of (snd (fst (premium_handler cfg0 env_paid (Some header_truncated))))
           = [''error'', ''details'']"
    by simp
  then have "keys_of (snd (fst (premium_handler cfg0 env_paid (Some header_truncated))))
               = [''error'', ''details'']"
    by (simp add: handler_truncated)
  with a 2 show ?thesis by simp
qed

end
